theory Spec2Isabelle
  imports Complex_Main "HOL-Library.Word" "HOL-Library.Log_Nat"
begin

section \<open>JavaScript numbers\<close>

text \<open>
  Every number of the program is an IEEE 754 double. A double is a rational number, and
  the result of an arithmetic operation is the exact result rounded to the nearest double,
  ties to the even significand. \<open>fl\<close> is that rounding on rationals (53 significant
  bits, subnormals below \<open>2^-1022\<close>) and \<open>fl_int\<close> the same rounding computed on
  integers, where every integer of magnitude below \<open>2^53\<close> is a double. Overflow to
  \<^verbatim>\<open>Infinity\<close> (magnitudes of \<open>2^1024\<close> and more) is not represented. Operations
  whose operands and results are integers of magnitude below \<open>2^53\<close> (indices into the
  arrays, loop counters over the grid, sums of small integers) are exact and written
  without rounding.
\<close>

definition pow2 :: "int \<Rightarrow> rat" where
  "pow2 k = (if 0 \<le> k then 2 ^ nat k else 1 / 2 ^ nat (- k))"

definition ilog2 :: "rat \<Rightarrow> int" where
  "ilog2 a =
     (case quotient_of a of (p, q) \<Rightarrow>
        let k = bitlen p - bitlen q in if pow2 k \<le> a then k else k - 1)"

definition round_half_even :: "rat \<Rightarrow> int" where
  "round_half_even m =
     (let f = \<lfloor>m\<rfloor>; d = m - of_int f in
      if d < 1 / 2 then f else if 1 / 2 < d then f + 1
      else if even f then f else f + 1)"

definition fl :: "rat \<Rightarrow> rat" where
  "fl x =
     (if x = 0 then 0
      else let a = \<bar>x\<bar>;
               q = max (ilog2 a - 52) (- 1074)
           in sgn x * of_int (round_half_even (a / pow2 q)) * pow2 q)"

definition fl_int :: "int \<Rightarrow> int" where
  "fl_int n =
     (let a = \<bar>n\<bar> in
      if a < 2 ^ 53 then n
      else let q = 2 ^ nat (bitlen a - 53);
               m = a div q;
               r = a mod q;
               m' = (if 2 * r < q then m else if q < 2 * r then m + 1
                     else if even m then m else m + 1)
           in sgn n * (m' * q))"

text \<open>
  The decimal literals of the program, as the doubles they denote: \<^verbatim>\<open>0.3\<close> is
  \<open>5404319552844595 / 2^54\<close>, slightly below three tenths.
\<close>

definition lit_0_4 :: rat where
  "lit_0_4 = 3602879701896397 / 2 ^ 53"

definition lit_0_3 :: rat where
  "lit_0_3 = 5404319552844595 / 2 ^ 54"

definition lit_0_8 :: rat where
  "lit_0_8 = 3602879701896397 / 2 ^ 52"

definition lit_0_2 :: rat where
  "lit_0_2 = 3602879701896397 / 2 ^ 54"

definition lit_0_15 :: rat where
  "lit_0_15 = 5404319552844595 / 2 ^ 55"

definition lit_0_05 :: rat where
  "lit_0_05 = 3602879701896397 / 2 ^ 56"

definition lit_0_1 :: rat where
  "lit_0_1 = 3602879701896397 / 2 ^ 55"

definition lit_0_02 :: rat where
  "lit_0_02 = 5764607523034235 / 2 ^ 58"

definition lit_0_01 :: rat where
  "lit_0_01 = 5764607523034235 / 2 ^ 59"

definition lit_0_001 :: rat where
  "lit_0_001 = 1152921504606847 / 2 ^ 60"

definition lit_0_002 :: rat where
  "lit_0_002 = 1152921504606847 / 2 ^ 59"

definition lit_0_0005 :: rat where
  "lit_0_0005 = 1152921504606847 / 2 ^ 61"

definition lit_0_85 :: rat where
  "lit_0_85 = 7656119366529843 / 2 ^ 53"

definition lit_0_5 :: rat where
  "lit_0_5 = 1 / 2"

section \<open>Material registry (materials.js)\<close>

text \<open>
  Material ids are the numbers of the \<^verbatim>\<open>MATERIAL\<close> table: input abbreviations of
  integer literals, so that an id read from a cell is compared as the number it is.
\<close>

abbreviation (input) AIR :: int where "AIR \<equiv> 0"
abbreviation (input) STONE :: int where "STONE \<equiv> 1"
abbreviation (input) DIRT :: int where "DIRT \<equiv> 2"
abbreviation (input) SAND :: int where "SAND \<equiv> 3"
abbreviation (input) CLAY :: int where "CLAY \<equiv> 4"
abbreviation (input) METAL :: int where "METAL \<equiv> 5"
abbreviation (input) ICE :: int where "ICE \<equiv> 6"
abbreviation (input) WATER :: int where "WATER \<equiv> 10"
abbreviation (input) MUD :: int where "MUD \<equiv> 11"
abbreviation (input) OIL :: int where "OIL \<equiv> 12"
abbreviation (input) LAVA :: int where "LAVA \<equiv> 13"
abbreviation (input) STEAM :: int where "STEAM \<equiv> 20"
abbreviation (input) SMOKE :: int where "SMOKE \<equiv> 21"
abbreviation (input) GAS :: int where "GAS \<equiv> 22"
abbreviation (input) GRASS :: int where "GRASS \<equiv> 30"
abbreviation (input) PLANT :: int where "PLANT \<equiv> 31"
abbreviation (input) WOOD :: int where "WOOD \<equiv> 32"
abbreviation (input) CHARCOAL :: int where "CHARCOAL \<equiv> 33"
abbreviation (input) FIRE :: int where "FIRE \<equiv> 40"
abbreviation (input) ELECTRICITY :: int where "ELECTRICITY \<equiv> 41"
abbreviation (input) EXPLOSION :: int where "EXPLOSION \<equiv> 42"

text \<open>The \<^verbatim>\<open>STATE\<close> table; the state of gases is named apart from the material GAS.\<close>

datatype mstate = SOLID | POWDER | LIQUID | GASEOUS | ENERGY

text \<open>
  A material's \<^verbatim>\<open>color\<close> is either an RGB triple or a function drawing from
  \<^verbatim>\<open>Math.random\<close>: \<^verbatim>\<open>colorVariant(base, variance)\<close>, \<^verbatim>\<open>fireColor\<close>,
  \<^verbatim>\<open>lavaColor\<close>, \<^verbatim>\<open>electricityColor\<close> and the arrow function of EXPLOSION.
\<close>

datatype color =
    Fixed int int int
  | ColorVariant int int int int
  | FireColor
  | LavaColor
  | ElectricityColor
  | ExplosionColor

fun is_function :: "color \<Rightarrow> bool" where
  "is_function (Fixed r g b) = False"
| "is_function c = True"

text \<open>
  The properties of a material that the simulation, the physics and the interactions read.
  An absent numeric or id property (\<^verbatim>\<open>undefined\<close>) is \<open>None\<close>, an absent flag is
  \<open>False\<close>. Properties nothing reads (name, conductivity, burnTemp, sticky, glows,
  ...) are left out.
\<close>

record material =
  color :: color
  density :: int
  state :: mstate
  flammable :: bool
  mat_temperature :: int
  immovable :: bool
  viscosity :: "int option"
  lifetime :: "int option"
  produces :: "int option"
  condensesTo :: "int option"
  dissipates :: bool
  conductive :: bool
  ignites :: bool
  meltTemp :: "int option"
  force :: "int option"

definition mk :: "color \<Rightarrow> int \<Rightarrow> mstate \<Rightarrow> bool \<Rightarrow> int \<Rightarrow> material" where
  "mk c d st f t =
     \<lparr>color = c, density = d, state = st, flammable = f, mat_temperature = t,
      immovable = False, viscosity = None, lifetime = None, produces = None,
      condensesTo = None, dissipates = False, conductive = False, ignites = False,
      meltTemp = None, force = None\<rparr>"

definition MATERIALS :: "int \<Rightarrow> material option" where
  "MATERIALS i =
    (if i = AIR then Some (mk (Fixed 10 10 20) 0 GASEOUS False 20)
     else if i = STONE then
       Some ((mk (ColorVariant 85 85 85 15) 100 SOLID False 20)\<lparr>immovable := True\<rparr>)
     else if i = DIRT then Some (mk (ColorVariant 110 80 40 12) 60 POWDER False 20)
     else if i = SAND then Some (mk (ColorVariant 210 190 140 15) 50 POWDER False 20)
     else if i = CLAY then Some (mk (ColorVariant 140 100 70 10) 70 SOLID False 20)
     else if i = METAL then
       Some ((mk (ColorVariant 120 130 150 8) 150 SOLID False 20)\<lparr>conductive := True\<rparr>)
     else if i = ICE then
       Some ((mk (ColorVariant 180 220 255 10) 35 SOLID False (- 10))\<lparr>meltTemp := Some 0\<rparr>)
     else if i = WATER then
       Some ((mk (ColorVariant 50 130 200 15) 40 LIQUID False 20)
              \<lparr>viscosity := Some 1, conductive := True\<rparr>)
     else if i = MUD then
       Some ((mk (ColorVariant 70 55 40 8) 55 LIQUID False 20)\<lparr>viscosity := Some 8\<rparr>)
     else if i = OIL then
       Some ((mk (ColorVariant 40 35 25 5) 30 LIQUID True 20)\<lparr>viscosity := Some 3\<rparr>)
     else if i = LAVA then
       Some ((mk LavaColor 90 LIQUID False 1200)\<lparr>viscosity := Some 12, ignites := True\<rparr>)
     else if i = STEAM then
       Some ((mk (ColorVariant 200 210 220 10) (- 20) GASEOUS False 100)
              \<lparr>lifetime := Some 300, condensesTo := Some WATER\<rparr>)
     else if i = SMOKE then
       Some ((mk (ColorVariant 60 60 65 10) (- 15) GASEOUS False 80)
              \<lparr>lifetime := Some 200, dissipates := True\<rparr>)
     else if i = GAS then Some (mk (ColorVariant 150 220 150 20) (- 10) GASEOUS True 20)
     else if i = GRASS then Some (mk (ColorVariant 50 140 50 20) 25 SOLID True 20)
     else if i = PLANT then Some (mk (ColorVariant 70 180 70 25) 20 SOLID True 20)
     else if i = WOOD then Some (mk (ColorVariant 120 80 40 15) 35 SOLID True 20)
     else if i = CHARCOAL then Some (mk (ColorVariant 35 35 40 5) 25 POWDER True 20)
     else if i = FIRE then
       Some ((mk FireColor (- 30) ENERGY False 600)
              \<lparr>lifetime := Some 60, produces := Some SMOKE, ignites := True\<rparr>)
     else if i = ELECTRICITY then
       Some ((mk ElectricityColor 0 ENERGY False 50)\<lparr>lifetime := Some 5, ignites := True\<rparr>)
     else if i = EXPLOSION then
       Some ((mk ExplosionColor 0 ENERGY False 2000)
              \<lparr>lifetime := Some 3, ignites := True, force := Some 10\<rparr>)
     else None)"

text \<open>\<^verbatim>\<open>getMaterial(id)\<close>: \<^verbatim>\<open>MATERIALS[id] || MATERIALS[MATERIAL.AIR]\<close>.\<close>

definition getMaterial :: "int \<Rightarrow> material" where
  "getMaterial i =
     (case MATERIALS i of Some m \<Rightarrow> m | None \<Rightarrow> mk (Fixed 10 10 20) 0 GASEOUS False 20)"

section \<open>The world grid (simulation.js)\<close>

text \<open>
  A cell object. Cells written by \<^verbatim>\<open>reset\<close> and \<^verbatim>\<open>setCell\<close> have \<^verbatim>\<open>id\<close>,
  \<^verbatim>\<open>life\<close> and \<^verbatim>\<open>temperature\<close>; the object \<^verbatim>\<open>getCell\<close> returns out of range has
  \<^verbatim>\<open>id\<close> and \<^verbatim>\<open>immovable: true\<close> only. A field an object does not have
  (\<^verbatim>\<open>undefined\<close>) is \<open>None\<close>, the absent flag is \<open>False\<close>. \<^verbatim>\<open>updated\<close> is the
  stamp that \<^verbatim>\<open>PhysicsEngine.update\<close> reads.
\<close>

record cell =
  cell_id :: int
  life :: "int option"
  temperature :: "int option"
  cell_immovable :: bool
  updated :: "int option"

text \<open>The optional \<^verbatim>\<open>props\<close> of \<^verbatim>\<open>setCell\<close>: overrides of life and temperature.\<close>

record props =
  p_life :: "int option"
  p_temperature :: "int option"

definition no_props :: props where
  "no_props = \<lparr>p_life = None, p_temperature = None\<rparr>"

text \<open>
  The simulation object, together with the stream that \<^verbatim>\<open>Math.random()\<close> reads:
  \<open>rnd\<close> is the sequence of draws (doubles in \<open>[0, 1)\<close>, each the rational it is)
  and \<open>rpos\<close> the number of draws made so far. \<^verbatim>\<open>dynamicCells\<close> is a JavaScript
  \<^verbatim>\<open>Set\<close>, which iterates in insertion order: a duplicate-free list.
  \<^verbatim>\<open>colorCache\<close> is the \<^verbatim>\<open>Uint8ClampedArray\<close>. The fields \<^verbatim>\<open>paused\<close>,
  \<^verbatim>\<open>speed\<close> and \<^verbatim>\<open>ticksPerFrame\<close> are read by none of the operations below.
\<close>

record sim =
  width :: int
  height :: int
  grid :: "cell list"
  colorCache :: "8 word list"
  dynamicCells :: "nat list"
  frameCount :: int
  particleCount :: int
  rnd :: "nat \<Rightarrow> rat"
  rpos :: nat

definition random :: "sim \<Rightarrow> rat \<times> sim" where
  "random s = (rnd s (rpos s), s\<lparr>rpos := Suc (rpos s)\<rparr>)"

definition set_has :: "nat \<Rightarrow> nat list \<Rightarrow> bool" where
  "set_has i d = (i \<in> set d)"

definition set_add :: "nat \<Rightarrow> nat list \<Rightarrow> nat list" where
  "set_add i d = (if i \<in> set d then d else d @ [i])"

definition set_delete :: "nat \<Rightarrow> nat list \<Rightarrow> nat list" where
  "set_delete i d = removeAll i d"

subsection \<open>Colors\<close>

text \<open>Storing a number into a \<^verbatim>\<open>Uint8ClampedArray\<close>: clamp, round half to even.\<close>

definition toUint8Clamp :: "rat \<Rightarrow> 8 word" where
  "toUint8Clamp v =
     (if v \<le> 0 then 0 else if 255 \<le> v then 255 else of_int (round_half_even v))"

definition clamp255 :: "int \<Rightarrow> int" where
  "clamp255 v = max 0 (min 255 v)"

text \<open>
  Calling a procedural color; a fixed triple is returned as it is. A product with a draw
  is rounded: \<^verbatim>\<open>Math.random() * variance * 2\<close> is two multiplications. The sums of
  \<^verbatim>\<open>Math.floor\<close> results and small integers are exact.
\<close>

fun sample_color :: "color \<Rightarrow> sim \<Rightarrow> (rat \<times> rat \<times> rat) \<times> sim" where
  "sample_color (Fixed r g b) s = ((of_int r, of_int g, of_int b), s)"
| "sample_color (ColorVariant r g b variance) s =
     (let (u, s1) = random s;
          v = \<lfloor>fl (fl (u * of_int variance) * 2)\<rfloor> - variance
      in ((of_int (clamp255 (r + v)), of_int (clamp255 (g + v)), of_int (clamp255 (b + v))), s1))"
| "sample_color FireColor s =
     (let (u1, s1) = random s; (u2, s2) = random s1; (u3, s3) = random s2
      in ((of_int (200 + \<lfloor>fl (u1 * 55)\<rfloor>), of_int \<lfloor>fl (u2 * 150)\<rfloor>,
           of_int \<lfloor>fl (u3 * 50)\<rfloor>), s3))"
| "sample_color LavaColor s =
     (let (u1, s1) = random s; (u2, s2) = random s1
      in ((of_int (200 + \<lfloor>fl (u1 * 55)\<rfloor>), of_int (50 + \<lfloor>fl (u2 * 100)\<rfloor>), 0), s2))"
| "sample_color ElectricityColor s =
     (let (u1, s1) = random s; (u2, s2) = random s1;
          intensity = (if u1 > lit_0_5 then 255 else 200)
      in ((intensity, intensity, of_int \<lfloor>fl (u2 * 100)\<rfloor>), s2))"
| "sample_color ExplosionColor s =
     (let (u1, s1) = random s; (u2, s2) = random s1
      in ((255, fl (200 + fl (u1 * 55)), fl (u2 * 100)), s2))"

text \<open>\<^verbatim>\<open>getColor(id)\<close> of materials.js.\<close>

definition getColor :: "int \<Rightarrow> sim \<Rightarrow> (rat \<times> rat \<times> rat) \<times> sim" where
  "getColor i s = sample_color (color (getMaterial i)) s"

text \<open>The three (or, with the alpha byte, four) stores into the color cache at a cell.\<close>

definition write_rgb :: "8 word list \<Rightarrow> nat \<Rightarrow> rat \<times> rat \<times> rat \<Rightarrow> 8 word list" where
  "write_rgb cc colorIdx c =
     (case c of (r, g, b) \<Rightarrow>
        cc[colorIdx := toUint8Clamp r, colorIdx + 1 := toUint8Clamp g,
           colorIdx + 2 := toUint8Clamp b])"

definition write_rgba :: "8 word list \<Rightarrow> nat \<Rightarrow> rat \<times> rat \<times> rat \<Rightarrow> 8 word list" where
  "write_rgba cc colorIdx c = (write_rgb cc colorIdx c)[colorIdx + 3 := 255]"

subsection \<open>Construction and reset\<close>

definition inBounds :: "sim \<Rightarrow> int \<Rightarrow> int \<Rightarrow> bool" where
  "inBounds s x y = (x \<ge> 0 \<and> x < width s \<and> y \<ge> 0 \<and> y < height s)"

definition air_cell :: cell where
  "air_cell = \<lparr>cell_id = AIR, life = Some 0, temperature = Some 20,
               cell_immovable = False, updated = None\<rparr>"

definition updateCellColor :: "sim \<Rightarrow> int \<Rightarrow> int \<Rightarrow> sim" where
  "updateCellColor s x y =
     (let idx = nat (y * width s + x);
          c = grid s ! idx;
          (col, s1) = getColor (cell_id c) s
      in s1\<lparr>colorCache := write_rgba (colorCache s1) (idx * 4) col\<rparr>)"

definition updateColorCache :: "sim \<Rightarrow> sim" where
  "updateColorCache s =
     fold (\<lambda>y s1. fold (\<lambda>x s2. updateCellColor s2 x y) [0 .. width s - 1] s1)
          [0 .. height s - 1] s"

definition reset :: "sim \<Rightarrow> sim" where
  "reset s =
     updateColorCache
       (s\<lparr>grid := map (\<lambda>c. air_cell) (grid s), particleCount := 0, dynamicCells := []\<rparr>)"

text \<open>
  The constructor makes two allocations before anything else, and checks nothing itself.
  \<^verbatim>\<open>new Array(n)\<close> throws a RangeError unless \<open>n\<close> is an integer in
  \<open>[0, 2^32 - 1]\<close>. \<^verbatim>\<open>new Uint8ClampedArray(n * 4)\<close> throws a RangeError when the
  engine cannot allocate a buffer of that many bytes; how many bytes it can allocate
  depends on the engine and its memory, and is the parameter \<open>maxBytes\<close>. The new
  array's holes are filled by \<^verbatim>\<open>reset\<close>, and the typed array starts as zeros.
  \<open>r\<close> is the stream of \<^verbatim>\<open>Math.random\<close>.
\<close>

datatype error = RangeError

definition construct :: "int \<Rightarrow> (nat \<Rightarrow> rat) \<Rightarrow> int \<Rightarrow> int \<Rightarrow> error + sim" where
  "construct maxBytes r w h =
     (if w * h < 0 \<or> w * h > 2 ^ 32 - 1 then Inl RangeError
      else if w * h * 4 > maxBytes then Inl RangeError
      else Inr (reset
        \<lparr>width = w, height = h,
         grid = replicate (nat (w * h)) air_cell,
         colorCache = replicate (nat (w * h * 4)) 0,
         dynamicCells = [],
         frameCount = 0, particleCount = 0, rnd = r, rpos = 0\<rparr>))"

subsection \<open>getCell, setCell, swap\<close>

definition boundary_cell :: cell where
  "boundary_cell = \<lparr>cell_id = STONE, life = None, temperature = None,
                    cell_immovable = True, updated = None\<rparr>"

definition getCell :: "sim \<Rightarrow> int \<Rightarrow> int \<Rightarrow> cell" where
  "getCell s x y =
     (if x < 0 \<or> x \<ge> width s \<or> y < 0 \<or> y \<ge> height s then boundary_cell
      else grid s ! nat (y * width s + x))"

text \<open>
  \<^verbatim>\<open>mat.lifetime || 0\<close> and \<^verbatim>\<open>mat.temperature || 20\<close>: an absent or zero value gives
  the default.
\<close>

definition new_cell :: "int \<Rightarrow> material \<Rightarrow> props \<Rightarrow> cell" where
  "new_cell materialId mat p =
     \<lparr>cell_id = materialId,
      life = (case p_life p of Some l \<Rightarrow> Some l
              | None \<Rightarrow> Some (case lifetime mat of Some l \<Rightarrow> l | None \<Rightarrow> 0)),
      temperature = (case p_temperature p of Some t \<Rightarrow> Some t
              | None \<Rightarrow> Some (if mat_temperature mat = 0 then 20 else mat_temperature mat)),
      cell_immovable = False, updated = None\<rparr>"

definition setCell :: "sim \<Rightarrow> int \<Rightarrow> int \<Rightarrow> int \<Rightarrow> props \<Rightarrow> sim" where
  "setCell s x y materialId p =
     (if x < 0 \<or> x \<ge> width s \<or> y < 0 \<or> y \<ge> height s then s
      else
        let idx = nat (y * width s + x);
            oldId = cell_id (grid s ! idx);
            pc = (if oldId = AIR \<and> materialId \<noteq> AIR then particleCount s + 1
                  else if oldId \<noteq> AIR \<and> materialId = AIR then particleCount s - 1
                  else particleCount s);
            mat = getMaterial materialId;
            dyn = (if is_function (color mat) then set_add idx (dynamicCells s)
                   else set_delete idx (dynamicCells s));
            (col, s1) = sample_color (color mat) s
        in s1\<lparr>particleCount := pc,
               grid := (grid s)[idx := new_cell materialId mat p],
               dynamicCells := dyn,
               colorCache := write_rgba (colorCache s) (idx * 4) col\<rparr>)"

text \<open>
  \<^verbatim>\<open>swap\<close>: the two cell objects, then the three color bytes of each (the alpha byte
  is not exchanged), then the two tests on the dynamic set, one after the other.
\<close>

definition swap_dynamic :: "nat \<Rightarrow> nat \<Rightarrow> nat list \<Rightarrow> nat list" where
  "swap_dynamic idx1 idx2 d =
     (let d1 = (if set_has idx1 d then set_add idx2 (set_delete idx1 d) else d)
      in if set_has idx2 d1 then set_add idx1 (set_delete idx2 d1) else d1)"

definition swap :: "sim \<Rightarrow> int \<Rightarrow> int \<Rightarrow> int \<Rightarrow> int \<Rightarrow> sim" where
  "swap s x1 y1 x2 y2 =
     (if x1 < 0 \<or> x1 \<ge> width s \<or> y1 < 0 \<or> y1 \<ge> height s then s
      else if x2 < 0 \<or> x2 \<ge> width s \<or> y2 < 0 \<or> y2 \<ge> height s then s
      else
        let idx1 = nat (y1 * width s + x1);
            idx2 = nat (y2 * width s + x2);
            g = grid s;
            g' = g[idx1 := g ! idx2, idx2 := g ! idx1];
            colorIdx1 = idx1 * 4;
            colorIdx2 = idx2 * 4;
            cc = colorCache s;
            r1 = cc ! colorIdx1;
            g1 = cc ! (colorIdx1 + 1);
            b1 = cc ! (colorIdx1 + 2);
            cc1 = cc[colorIdx1 := cc ! colorIdx2];
            cc2 = cc1[colorIdx1 + 1 := cc1 ! (colorIdx2 + 1)];
            cc3 = cc2[colorIdx1 + 2 := cc2 ! (colorIdx2 + 2)];
            cc4 = cc3[colorIdx2 := r1, colorIdx2 + 1 := g1, colorIdx2 + 2 := b1]
        in s\<lparr>grid := g', colorCache := cc4,
              dynamicCells := swap_dynamic idx1 idx2 (dynamicCells s)\<rparr>)"

text \<open>
  A simulation is well formed when its arrays have the sizes the constructor gave them:
  then every in-range coordinate indexes an existing cell and four existing bytes.
\<close>

definition well_formed :: "sim \<Rightarrow> bool" where
  "well_formed s = (length (grid s) = nat (width s * height s)
           \<and> length (colorCache s) = 4 * length (grid s))"

subsection \<open>drawBrush and drawLine\<close>

datatype shape = Circle | Square

text \<open>
  One iteration of the inner loop of \<^verbatim>\<open>drawBrush\<close>, with its two \<^verbatim>\<open>continue\<close>s. The
  center may be any integer double, so the sums and products are rounded.
\<close>

definition brush_cell :: "int \<Rightarrow> int \<Rightarrow> int \<Rightarrow> int \<Rightarrow> shape \<Rightarrow> int \<Rightarrow> int \<Rightarrow> sim \<Rightarrow> sim" where
  "brush_cell centerX centerY materialId radiusSq sh dy dx s =
     (let x = fl_int (centerX + dx); y = fl_int (centerY + dy) in
      if x < 0 \<or> x \<ge> width s \<or> y < 0 \<or> y \<ge> height s then s
      else if sh = Circle \<and> fl_int (fl_int (dx * dx) + fl_int (dy * dy)) > radiusSq then s
      else let (u, s1) = random s in
        if u < lit_0_85 then setCell s1 x y materialId no_props else s1)"

text \<open>
  The two counting loops \<^verbatim>\<open>for (let d = -radius; d <= radius; d++)\<close>. Below \<open>2^53\<close>
  the increment is exact, and the loops run over the integers from \<open>-radius\<close> to
  \<open>radius\<close> (none for a negative radius). With a radius of \<open>2^53\<close> or more the counter
  reaches a double \<open>d \<le> radius\<close> of magnitude at least \<open>2^53\<close>, where \<open>d + 1\<close>
  rounds back to \<open>d\<close>, and the loop never ends: the call does not return, which is the
  result \<open>None\<close>.
\<close>

definition drawBrush :: "sim \<Rightarrow> int \<Rightarrow> int \<Rightarrow> int \<Rightarrow> int \<Rightarrow> shape \<Rightarrow> sim option" where
  "drawBrush s centerX centerY materialId radius sh =
     (if 2 ^ 53 \<le> radius then None
      else let radiusSq = fl_int (radius * radius)
           in Some (fold (\<lambda>dy s1. fold (brush_cell centerX centerY materialId radiusSq sh dy)
                                         [- radius .. radius] s1)
                         [- radius .. radius] s))"

text \<open>
  The \<^verbatim>\<open>while (true)\<close> loop of \<^verbatim>\<open>drawLine\<close>. It may run forever, so its result is
  an option: \<open>None\<close> stands for a loop that never reaches the \<^verbatim>\<open>break\<close>. The
  constants \<open>dx\<close>, \<open>dy\<close>, \<open>sx\<close>, \<open>sy\<close> are computed once, before the loop. Every
  sum, difference and product is rounded to a double.
\<close>

partial_function (option) drawLine_loop ::
  "sim \<Rightarrow> int \<Rightarrow> int \<Rightarrow> int \<Rightarrow> int \<Rightarrow> int \<Rightarrow> int \<Rightarrow> int \<Rightarrow> int \<Rightarrow> int \<Rightarrow> int \<Rightarrow> int \<Rightarrow> sim option"
where
  "drawLine_loop s x0 y0 x1 y1 dx dy sx sy err materialId radius =
     Option.bind (drawBrush s x0 y0 materialId radius Circle)
       (\<lambda>s1. if x0 = x1 \<and> y0 = y1 then Some s1
             else
               let e2 = fl_int (2 * err);
                   err1 = (if e2 > - dy then fl_int (err - dy) else err);
                   x0' = (if e2 > - dy then fl_int (x0 + sx) else x0);
                   err2 = (if e2 < dx then fl_int (err1 + dx) else err1);
                   y0' = (if e2 < dx then fl_int (y0 + sy) else y0)
               in drawLine_loop s1 x0' y0' x1 y1 dx dy sx sy err2 materialId radius)"

declare drawLine_loop.simps [code]

definition drawLine :: "sim \<Rightarrow> int \<Rightarrow> int \<Rightarrow> int \<Rightarrow> int \<Rightarrow> int \<Rightarrow> int \<Rightarrow> sim option" where
  "drawLine s x0 y0 x1 y1 materialId radius =
     (let dx = \<bar>fl_int (x1 - x0)\<bar>;
          dy = \<bar>fl_int (y1 - y0)\<bar>;
          sx = (if x0 < x1 then 1 else - 1);
          sy = (if y0 < y1 then 1 else - 1);
          err = fl_int (dx - dy)
      in drawLine_loop s x0 y0 x1 y1 dx dy sx sy err materialId radius)"

section \<open>The physics step (physics.js)\<close>

text \<open>
  \<^verbatim>\<open>cell.life = (cell.life || mat.lifetime) - 1\<close>: the cell object lies in the grid at
  \<open>(x, y)\<close>, so the assignment changes the grid. \<open>None\<close> is a value that is not a
  number (\<^verbatim>\<open>undefined\<close>, or the \<^verbatim>\<open>NaN\<close> that arithmetic on it gives): it is falsy
  and every comparison with it is false.
\<close>

definition js_or :: "int option \<Rightarrow> int option \<Rightarrow> int option" where
  "js_or a b = (case a of None \<Rightarrow> b | Some v \<Rightarrow> if v = 0 then b else Some v)"

definition truthy :: "int option \<Rightarrow> bool" where
  "truthy a = (case a of None \<Rightarrow> False | Some v \<Rightarrow> v \<noteq> 0)"

definition decr_life :: "cell \<Rightarrow> material \<Rightarrow> int option" where
  "decr_life c mat = map_option (\<lambda>v. v - 1) (js_or (life c) (lifetime mat))"

definition le0 :: "int option \<Rightarrow> bool" where
  "le0 a = (case a of None \<Rightarrow> False | Some v \<Rightarrow> v \<le> 0)"

definition set_life :: "sim \<Rightarrow> int \<Rightarrow> int \<Rightarrow> int option \<Rightarrow> sim" where
  "set_life s x y l =
     (let idx = nat (y * width s + x)
      in s\<lparr>grid := (grid s)[idx := (grid s ! idx)\<lparr>life := l\<rparr>]\<rparr>)"

definition tryPowderSlide :: "sim \<Rightarrow> int \<Rightarrow> int \<Rightarrow> int \<Rightarrow> cell \<Rightarrow> material \<Rightarrow> bool \<times> sim" where
  "tryPowderSlide s x y dir c mat =
     (let side = getCell s (x + dir) y;
          sideMat = getMaterial (cell_id side);
          diag = getCell s (x + dir) (y + 1);
          diagMat = getMaterial (cell_id diag);
          diagOpen = (cell_id diag = AIR
                      \<or> (state diagMat = LIQUID \<and> density mat > density diagMat));
          sideOpen = (cell_id side = AIR \<or> state sideMat = GASEOUS)
      in if diagOpen \<and> sideOpen then (True, swap s x y (x + dir) (y + 1)) else (False, s))"

definition updatePowder :: "sim \<Rightarrow> int \<Rightarrow> int \<Rightarrow> cell \<Rightarrow> material \<Rightarrow> bool \<times> sim" where
  "updatePowder s x y c mat =
     (let below = getCell s x (y + 1);
          belowMat = getMaterial (cell_id below)
      in if cell_id below = AIR then (True, swap s x y x (y + 1))
         else if state belowMat = LIQUID \<and> density mat > density belowMat then
           (let (u, s1) = random s
            in if u < lit_0_4 then (True, swap s1 x y x (y + 1)) else (False, s1))
         else
           (let (u, s1) = random s;
                dir = (if u < lit_0_5 then 1 else - 1);
                (moved, s2) = tryPowderSlide s1 x y dir c mat
            in if moved then (True, s2) else tryPowderSlide s2 x y (- dir) c mat))"

text \<open>
  \<^verbatim>\<open>updateLiquid\<close>, in three parts: the horizontal spread and pressure rule, the
  diagonal fall, and the entry with the viscosity throttle and the vertical moves. The
  block under the comment "Float up through denser liquids" only reads a cell and does
  nothing, so it has no counterpart here.
\<close>

definition liquid_spread :: "sim \<Rightarrow> int \<Rightarrow> int \<Rightarrow> int \<Rightarrow> cell \<Rightarrow> bool \<times> sim" where
  "liquid_spread s x y dir c =
     (let left = getCell s (x - 1) y;
          right = getCell s (x + 1) y;
          canLeft = (cell_id left = AIR);
          canRight = (cell_id right = AIR)
      in if canLeft \<and> canRight then (True, swap s x y (x + dir) y)
         else if canLeft then (True, swap s x y (x - 1) y)
         else if canRight then (True, swap s x y (x + 1) y)
         else
           (let (u, s1) = random s
            in if u < lit_0_3 then
                 (let leftBelow = getCell s1 (x - 2) (y + 1);
                      rightBelow = getCell s1 (x + 2) (y + 1)
                  in if cell_id leftBelow = AIR \<and> cell_id left = cell_id c
                       then (True, swap s1 x y (x - 1) y)
                     else if cell_id rightBelow = AIR \<and> cell_id right = cell_id c
                       then (True, swap s1 x y (x + 1) y)
                     else (False, s1))
               else (False, s1)))"

definition liquid_diagonal :: "sim \<Rightarrow> int \<Rightarrow> int \<Rightarrow> cell \<Rightarrow> material \<Rightarrow> material \<Rightarrow> bool \<times> sim" where
  "liquid_diagonal s x y c mat belowMat =
     (let (u, s1) = random s;
          dir = (if u < lit_0_5 then 1 else - 1);
          diag1 = getCell s1 (x + dir) (y + 1)
      in if cell_id diag1 = AIR then (True, swap s1 x y (x + dir) (y + 1))
         else
           let diag2 = getCell s1 (x - dir) (y + 1)
           in if cell_id diag2 = AIR then (True, swap s1 x y (x - dir) (y + 1))
              else
                let canSpread = (state belowMat = SOLID \<or> state belowMat = POWDER
                       \<or> (state belowMat = LIQUID \<and> density mat \<le> density belowMat))
                in if canSpread then liquid_spread s1 x y dir c else (False, s1))"

definition liquid_fall :: "sim \<Rightarrow> int \<Rightarrow> int \<Rightarrow> cell \<Rightarrow> material \<Rightarrow> bool \<times> sim" where
  "liquid_fall s x y c mat =
     (let below = getCell s x (y + 1);
          belowMat = getMaterial (cell_id below)
      in if cell_id below = AIR then (True, swap s x y x (y + 1))
         else if state belowMat = LIQUID \<and> density mat > density belowMat then
           (let (u, s1) = random s
            in if u < lit_0_5 then (True, swap s1 x y x (y + 1))
               else liquid_diagonal s1 x y c mat belowMat)
         else liquid_diagonal s x y c mat belowMat)"

definition updateLiquid :: "sim \<Rightarrow> int \<Rightarrow> int \<Rightarrow> cell \<Rightarrow> material \<Rightarrow> bool \<times> sim" where
  "updateLiquid s x y c mat =
     (let visc = (case js_or (viscosity mat) (Some 1) of Some v \<Rightarrow> v | None \<Rightarrow> 1)
      in if visc > 1 then
           (let (u, s1) = random s
            in if u > fl (1 / of_int visc) then (False, s1) else liquid_fall s1 x y c mat)
         else liquid_fall s x y c mat)"

text \<open>\<^verbatim>\<open>updateGas\<close>: the lifetime block first, then the moves.\<close>

definition gas_move :: "sim \<Rightarrow> int \<Rightarrow> int \<Rightarrow> bool \<times> sim" where
  "gas_move s x y =
     (let (u, s1) = random s;
          dir = (if u < lit_0_5 then 1 else - 1);
          diagUp1 = getCell s1 (x + dir) (y - 1);
          diagUp2 = getCell s1 (x - dir) (y - 1);
          (t1, s2) = (if cell_id diagUp1 = AIR
                      then (let (u1, s') = random s1 in (u1 < lit_0_5, s')) else (False, s1))
      in if t1 then (True, swap s2 x y (x + dir) (y - 1))
         else
           let (t2, s3) = (if cell_id diagUp2 = AIR
                           then (let (u2, s') = random s2 in (u2 < lit_0_5, s')) else (False, s2))
           in if t2 then (True, swap s3 x y (x - dir) (y - 1))
              else
                let (u3, s4) = random s3
                in if u3 < lit_0_2 then
                     (let side = getCell s4 (x + dir) y
                      in if cell_id side = AIR then (True, swap s4 x y (x + dir) y)
                         else (False, s4))
                   else (False, s4))"

definition gas_rise :: "sim \<Rightarrow> int \<Rightarrow> int \<Rightarrow> bool \<times> sim" where
  "gas_rise s x y =
     (let above = getCell s x (y - 1)
      in if cell_id above = AIR then
           (let (u, s1) = random s
            in if u < lit_0_8 then (True, swap s1 x y x (y - 1)) else gas_move s1 x y)
         else gas_move s x y)"

definition updateGas :: "sim \<Rightarrow> int \<Rightarrow> int \<Rightarrow> cell \<Rightarrow> material \<Rightarrow> bool \<times> sim" where
  "updateGas s x y c mat =
     (if truthy (lifetime mat) then
        (let l = decr_life c mat;
             s1 = set_life s x y l
         in if le0 l then
              (if dissipates mat then (True, setCell s1 x y AIR no_props)
               else if truthy (condensesTo mat)
                 then (True, setCell s1 x y (the (condensesTo mat)) no_props)
               else (True, setCell s1 x y AIR no_props))
            else gas_rise s1 x y)
      else gas_rise s x y)"

text \<open>
  \<^verbatim>\<open>updateEnergy\<close>. The eight neighbours of the explosion loop are visited with
  \<open>dy\<close> in the outer loop and \<open>dx\<close> in the inner one, each from \<open>-1\<close> to \<open>1\<close>.
\<close>

definition neighbor_offsets :: "(int \<times> int) list" where
  "neighbor_offsets =
     [(dx, dy). dy \<leftarrow> [- 1, 0, 1], dx \<leftarrow> [- 1, 0, 1], \<not> (dx = 0 \<and> dy = 0)]"

definition explosion_push :: "int \<Rightarrow> int \<Rightarrow> int \<times> int \<Rightarrow> sim \<Rightarrow> sim" where
  "explosion_push x y d s =
     (case d of (dx, dy) \<Rightarrow>
        let nx = x + dx; ny = y + dy;
            neighbor = getCell s nx ny;
            neighborMat = getMaterial (cell_id neighbor)
        in if \<not> immovable neighborMat \<and> cell_id neighbor \<noteq> EXPLOSION
              \<and> cell_id neighbor \<noteq> AIR then
             (let pushX = x + dx * 2; pushY = y + dy * 2
              in if inBounds s pushX pushY then
                   (let target = getCell s pushX pushY
                    in if cell_id target = AIR then swap s nx ny pushX pushY else s)
                 else s)
           else s)"

definition fire_flicker :: "sim \<Rightarrow> int \<Rightarrow> int \<Rightarrow> bool \<times> sim" where
  "fire_flicker s x y =
     (let (u1, s1) = random s;
          up = (u1 < lit_0_4 \<and> cell_id (getCell s1 x (y - 1)) = AIR)
      in if up then (True, swap s1 x y x (y - 1))
         else
           let (u2, s2) = random s1
           in if u2 < lit_0_15 then
                (let (u3, s3) = random s2;
                     dir = (if u3 < lit_0_5 then 1 else - 1);
                     side = getCell s3 (x + dir) y
                 in if cell_id side = AIR then (True, swap s3 x y (x + dir) y)
                    else (False, s3))
              else (False, s2))"

definition updateEnergy :: "sim \<Rightarrow> int \<Rightarrow> int \<Rightarrow> cell \<Rightarrow> material \<Rightarrow> bool \<times> sim" where
  "updateEnergy s x y c mat =
     (let l = decr_life c mat;
          s1 = set_life s x y l
      in if le0 l then
           (if truthy (produces mat) then (True, setCell s1 x y (the (produces mat)) no_props)
            else (True, setCell s1 x y AIR no_props))
         else
           let (moved, s2) = (if cell_id c = FIRE then fire_flicker s1 x y else (False, s1))
           in if moved then (True, s2)
              else if cell_id c = EXPLOSION
                then (False, fold (explosion_push x y) neighbor_offsets s2)
              else (False, s2))"

definition updateSolid :: "sim \<Rightarrow> int \<Rightarrow> int \<Rightarrow> cell \<Rightarrow> material \<Rightarrow> bool \<times> sim" where
  "updateSolid s x y c mat =
     (if immovable mat then (False, s)
      else
        let below = getCell s x (y + 1);
            belowMat = getMaterial (cell_id below)
        in if cell_id below = AIR then (True, swap s x y x (y + 1))
           else if state belowMat = LIQUID then
             (if density mat < density belowMat then (False, s)
              else (let (u, s1) = random s
                    in if u < lit_0_15 then (True, swap s1 x y x (y + 1)) else (False, s1)))
           else (False, s))"

text \<open>\<^verbatim>\<open>PhysicsEngine.update\<close>.\<close>

definition physics_update :: "sim \<Rightarrow> int \<Rightarrow> int \<Rightarrow> bool \<times> sim" where
  "physics_update s x y =
     (let c = getCell s x y
      in if cell_id c = AIR then (False, s)
         else if updated c = Some (frameCount s) then (False, s)
         else
           let mat = getMaterial (cell_id c)
           in if immovable mat then (False, s)
              else case state mat of
                  POWDER \<Rightarrow> updatePowder s x y c mat
                | LIQUID \<Rightarrow> updateLiquid s x y c mat
                | GASEOUS \<Rightarrow> updateGas s x y c mat
                | ENERGY \<Rightarrow> updateEnergy s x y c mat
                | SOLID \<Rightarrow> updateSolid s x y c mat)"

section \<open>The interaction step (interactions.js)\<close>

text \<open>
  \<^verbatim>\<open>getNeighbors\<close> builds an object whose keys, in insertion order, name the eight
  neighbours; \<^verbatim>\<open>Object.entries\<close> and \<^verbatim>\<open>Object.values\<close> iterate in that order. The
  cells are the objects read when \<^verbatim>\<open>update\<close> starts: a later \<^verbatim>\<open>setCell\<close> puts a
  new object into the grid and leaves these as they were.
\<close>

definition getNeighbors :: "sim \<Rightarrow> int \<Rightarrow> int \<Rightarrow> (string \<times> cell) list" where
  "getNeighbors s x y =
     [(''above'', getCell s x (y - 1)),
      (''below'', getCell s x (y + 1)),
      (''left'', getCell s (x - 1) y),
      (''right'', getCell s (x + 1) y),
      (''aboveLeft'', getCell s (x - 1) (y - 1)),
      (''aboveRight'', getCell s (x + 1) (y - 1)),
      (''belowLeft'', getCell s (x - 1) (y + 1)),
      (''belowRight'', getCell s (x + 1) (y + 1))]"

definition nb_above :: "(string \<times> cell) list \<Rightarrow> cell" where
  "nb_above neighbors = snd (neighbors ! 0)"

definition nb_below :: "(string \<times> cell) list \<Rightarrow> cell" where
  "nb_below neighbors = snd (neighbors ! 1)"

text \<open>\<^verbatim>\<open>String.prototype.includes\<close>: a case-sensitive search for a substring.\<close>

fun starts_with :: "string \<Rightarrow> string \<Rightarrow> bool" where
  "starts_with xs [] = True"
| "starts_with [] (y # ys) = False"
| "starts_with (x # xs) (y # ys) = (x = y \<and> starts_with xs ys)"

fun str_includes :: "string \<Rightarrow> string \<Rightarrow> bool" where
  "str_includes [] sub = (sub = [])"
| "str_includes (c # cs) sub = (starts_with (c # cs) sub \<or> str_includes cs sub)"

text \<open>The coordinates that the interaction rules compute from a neighbour's key.\<close>

definition key_x :: "string \<Rightarrow> int \<Rightarrow> int" where
  "key_x key x = (if str_includes key ''Left'' then x - 1
                  else if str_includes key ''Right'' then x + 1 else x)"

definition key_y :: "string \<Rightarrow> int \<Rightarrow> int" where
  "key_y key y = (if str_includes key ''above'' then y - 1
                  else if str_includes key ''below'' then y + 1 else y)"

text \<open>
  A block of a rule either returns \<^verbatim>\<open>true\<close> or falls through to the code after it:
  \<open>(True, s)\<close> is the return, \<open>(False, s)\<close> the fall-through.
\<close>

definition orelse :: "bool \<times> sim \<Rightarrow> (sim \<Rightarrow> bool \<times> sim) \<Rightarrow> bool \<times> sim" where
  "orelse r k = (case r of (ret, s) \<Rightarrow> if ret then (True, s) else k s)"

subsection \<open>checkMelting\<close>

fun ice_loop :: "sim \<Rightarrow> int \<Rightarrow> int \<Rightarrow> material \<Rightarrow> cell list \<Rightarrow> bool \<times> sim" where
  "ice_loop s x y mat [] = (False, s)"
| "ice_loop s x y mat (neighbor # ns) =
     (let neighborMat = getMaterial (cell_id neighbor)
      in if (case meltTemp mat of None \<Rightarrow> False
              | Some mt \<Rightarrow> mat_temperature neighborMat > mt + 50)
            \<or> cell_id neighbor = FIRE \<or> cell_id neighbor = LAVA then
           (let (u, s1) = random s
            in if u < lit_0_05 then (True, setCell s1 x y WATER no_props)
               else ice_loop s1 x y mat ns)
         else ice_loop s x y mat ns)"

fun evaporate_loop :: "sim \<Rightarrow> int \<Rightarrow> int \<Rightarrow> cell list \<Rightarrow> bool \<times> sim" where
  "evaporate_loop s x y [] = (False, s)"
| "evaporate_loop s x y (neighbor # ns) =
     (if cell_id neighbor = FIRE \<or> cell_id neighbor = LAVA then
        (let (u, s1) = random s
         in if u < lit_0_1 then (True, setCell s1 x y STEAM no_props)
            else evaporate_loop s1 x y ns)
      else evaporate_loop s x y ns)"

definition checkMelting ::
  "sim \<Rightarrow> int \<Rightarrow> int \<Rightarrow> cell \<Rightarrow> material \<Rightarrow> (string \<times> cell) list \<Rightarrow> bool \<times> sim" where
  "checkMelting s x y c mat neighbors =
     orelse (if cell_id c = ICE then ice_loop s x y mat (map snd neighbors) else (False, s))
       (\<lambda>s1. if cell_id c = WATER then evaporate_loop s1 x y (map snd neighbors)
              else (False, s1))"

subsection \<open>checkBurning\<close>

definition ignitionSource :: "(string \<times> cell) list \<Rightarrow> bool" where
  "ignitionSource neighbors =
     list_ex (\<lambda>neighbor. ignites (getMaterial (cell_id neighbor)) \<or> cell_id neighbor = FIRE)
       (map snd neighbors)"

definition burn_to :: "sim \<Rightarrow> int \<Rightarrow> int \<Rightarrow> rat \<Rightarrow> int \<Rightarrow> bool \<times> sim" where
  "burn_to s x y prob materialId =
     (let (u, s1) = random s
      in if u < prob then (True, setCell s1 x y materialId no_props) else (False, s1))"

definition burn_wood :: "sim \<Rightarrow> int \<Rightarrow> int \<Rightarrow> (string \<times> cell) list \<Rightarrow> bool \<times> sim" where
  "burn_wood s x y neighbors =
     (let (u, s1) = random s
      in if u < lit_0_02 then
           (let s2 = setCell s1 x y FIRE no_props;
                (u2, s3) = random s2
            in if u2 < lit_0_3 then
                 (if cell_id (nb_below neighbors) = AIR
                  then (True, setCell s3 x (y + 1) CHARCOAL no_props) else (True, s3))
               else (True, s3))
         else (False, s1))"

definition checkBurning ::
  "sim \<Rightarrow> int \<Rightarrow> int \<Rightarrow> cell \<Rightarrow> material \<Rightarrow> (string \<times> cell) list \<Rightarrow> bool \<times> sim" where
  "checkBurning s x y c mat neighbors =
     (if \<not> flammable mat then (False, s)
      else if \<not> ignitionSource neighbors then (False, s)
      else if cell_id c = WOOD then burn_wood s x y neighbors
      else if cell_id c = OIL then burn_to s x y lit_0_15 FIRE
      else if cell_id c = GAS then burn_to s x y lit_0_5 EXPLOSION
      else if cell_id c = GRASS \<or> cell_id c = PLANT then burn_to s x y lit_0_05 FIRE
      else if cell_id c = CHARCOAL then burn_to s x y lit_0_01 FIRE
      else (False, s))"

subsection \<open>checkMixing\<close>

fun sand_loop :: "sim \<Rightarrow> int \<Rightarrow> int \<Rightarrow> cell list \<Rightarrow> bool \<times> sim" where
  "sand_loop s x y [] = (False, s)"
| "sand_loop s x y (neighbor # ns) =
     (if cell_id neighbor = WATER then
        (let (u, s1) = random s
         in if u < lit_0_05 then (True, setCell s1 x y MUD no_props)
            else sand_loop s1 x y ns)
      else sand_loop s x y ns)"

definition hasWater :: "(string \<times> cell) list \<Rightarrow> bool" where
  "hasWater neighbors = list_ex (\<lambda>neighbor. cell_id neighbor = WATER) (map snd neighbors)"

definition dirt_grass :: "sim \<Rightarrow> int \<Rightarrow> int \<Rightarrow> (string \<times> cell) list \<Rightarrow> bool \<times> sim" where
  "dirt_grass s x y neighbors =
     (if cell_id (nb_above neighbors) = AIR then
        (if hasWater neighbors then
           (let (u, s1) = random s
            in if u < lit_0_001 then (True, setCell s1 x (y - 1) GRASS no_props)
               else (False, s1))
         else (False, s))
      else (False, s))"

fun lava_loop :: "sim \<Rightarrow> int \<Rightarrow> int \<Rightarrow> (string \<times> cell) list \<Rightarrow> bool \<times> sim" where
  "lava_loop s x y [] = (False, s)"
| "lava_loop s x y ((key, neighbor) # ns) =
     (if cell_id neighbor = WATER then
        (let (u, s1) = random s
         in if u < lit_0_3 then
              (let s2 = setCell s1 x y STONE no_props;
                   nx = key_x key x;
                   ny = key_y key y
               in (True, setCell s2 nx ny STEAM no_props))
            else lava_loop s1 x y ns)
      else lava_loop s x y ns)"

fun water_loop :: "sim \<Rightarrow> int \<Rightarrow> int \<Rightarrow> (string \<times> cell) list \<Rightarrow> bool \<times> sim" where
  "water_loop s x y [] = (False, s)"
| "water_loop s x y ((key, neighbor) # ns) =
     (if cell_id neighbor = LAVA then
        (let (u, s1) = random s
         in if u < lit_0_3 then (True, setCell s1 x y STEAM no_props)
            else water_loop s1 x y ns)
      else water_loop s x y ns)"

definition checkMixing ::
  "sim \<Rightarrow> int \<Rightarrow> int \<Rightarrow> cell \<Rightarrow> material \<Rightarrow> (string \<times> cell) list \<Rightarrow> bool \<times> sim" where
  "checkMixing s x y c mat neighbors =
     orelse (if cell_id c = SAND then sand_loop s x y (map snd neighbors) else (False, s))
       (\<lambda>s1. orelse (if cell_id c = DIRT then dirt_grass s1 x y neighbors else (False, s1))
         (\<lambda>s2. orelse (if cell_id c = LAVA then lava_loop s2 x y neighbors else (False, s2))
           (\<lambda>s3. if cell_id c = WATER then water_loop s3 x y neighbors else (False, s3))))"

subsection \<open>checkGrowing\<close>

fun grass_loop :: "sim \<Rightarrow> int \<Rightarrow> int \<Rightarrow> (int \<times> int) list \<Rightarrow> bool \<times> sim" where
  "grass_loop s x y [] = (False, s)"
| "grass_loop s x y ((dx, dy) # ds) =
     (let neighbor = getCell s (x + dx) (y + dy);
          above = getCell s (x + dx) (y + dy - 1)
      in if cell_id neighbor = DIRT \<and> cell_id above = AIR
         then (True, setCell s (x + dx) (y + dy - 1) GRASS no_props)
         else grass_loop s x y ds)"

definition grass_spread :: "sim \<Rightarrow> int \<Rightarrow> int \<Rightarrow> bool \<times> sim" where
  "grass_spread s x y =
     (let (u, s1) = random s
      in if u < lit_0_002 then grass_loop s1 x y [(- 1, 0), (1, 0), (0, 1)] else (False, s1))"

definition plant_grow :: "sim \<Rightarrow> int \<Rightarrow> int \<Rightarrow> (string \<times> cell) list \<Rightarrow> bool \<times> sim" where
  "plant_grow s x y neighbors =
     (if cell_id (nb_above neighbors) = AIR then
        (let (u, s1) = random s
         in if u < lit_0_001 then
              (if hasWater neighbors then (True, setCell s1 x (y - 1) PLANT no_props)
               else (False, s1))
            else (False, s1))
      else (False, s))"

definition checkGrowing ::
  "sim \<Rightarrow> int \<Rightarrow> int \<Rightarrow> cell \<Rightarrow> material \<Rightarrow> (string \<times> cell) list \<Rightarrow> bool \<times> sim" where
  "checkGrowing s x y c mat neighbors =
     orelse (if cell_id c = GRASS then grass_spread s x y else (False, s))
       (\<lambda>s1. if cell_id c = PLANT then plant_grow s1 x y neighbors else (False, s1))"

subsection \<open>checkConduction and checkErosion\<close>

definition spark :: "int \<Rightarrow> int \<Rightarrow> string \<times> cell \<Rightarrow> sim \<Rightarrow> sim" where
  "spark x y entry s =
     (case entry of (key, neighbor) \<Rightarrow>
        if conductive (getMaterial (cell_id neighbor)) \<and> cell_id neighbor \<noteq> ELECTRICITY then
          (let (u, s1) = random s
           in if u < lit_0_5 then
                (let nx = key_x key x;
                     ny = key_y key y;
                     (u2, s2) = random s1
                 in if u2 < lit_0_3 then setCell s2 nx ny ELECTRICITY no_props else s2)
              else s1)
        else s)"

definition checkConduction ::
  "sim \<Rightarrow> int \<Rightarrow> int \<Rightarrow> cell \<Rightarrow> material \<Rightarrow> (string \<times> cell) list \<Rightarrow> bool \<times> sim" where
  "checkConduction s x y c mat neighbors =
     (if cell_id c = ELECTRICITY then (False, fold (spark x y) neighbors s) else (False, s))"

fun erosion_loop :: "sim \<Rightarrow> int \<Rightarrow> int \<Rightarrow> (string \<times> cell) list \<Rightarrow> bool \<times> sim" where
  "erosion_loop s x y [] = (False, s)"
| "erosion_loop s x y ((key, neighbor) # ns) =
     (if cell_id neighbor = SAND \<or> cell_id neighbor = DIRT then
        (let (u, s1) = random s
         in if u < lit_0_0005 then
              (True, setCell s1 (key_x key x) (key_y key y) MUD no_props)
            else erosion_loop s1 x y ns)
      else erosion_loop s x y ns)"

definition checkErosion ::
  "sim \<Rightarrow> int \<Rightarrow> int \<Rightarrow> cell \<Rightarrow> material \<Rightarrow> (string \<times> cell) list \<Rightarrow> bool \<times> sim" where
  "checkErosion s x y c mat neighbors =
     (if cell_id c = WATER then erosion_loop s x y neighbors else (False, s))"

subsection \<open>InteractionsEngine.update\<close>

text \<open>
  Each statement \<^verbatim>\<open>changed = this.checkX(...) || changed\<close> calls the check first, so all
  six checks run, each on the state the one before left and on the cell, material and
  neighbours read at entry.
\<close>

definition interactions_update :: "sim \<Rightarrow> int \<Rightarrow> int \<Rightarrow> bool \<times> sim" where
  "interactions_update s x y =
     (let c = getCell s x y
      in if cell_id c = AIR then (False, s)
         else
           let mat = getMaterial (cell_id c);
               neighbors = getNeighbors s x y;
               (c1, s1) = checkMelting s x y c mat neighbors;
               (c2, s2) = checkBurning s1 x y c mat neighbors;
               (c3, s3) = checkMixing s2 x y c mat neighbors;
               (c4, s4) = checkGrowing s3 x y c mat neighbors;
               (c5, s5) = checkConduction s4 x y c mat neighbors;
               (c6, s6) = checkErosion s5 x y c mat neighbors
           in (c6 \<or> c5 \<or> c4 \<or> c3 \<or> c2 \<or> c1, s6))"

section \<open>The tick (simulation.js)\<close>

definition updateDynamicColor :: "nat \<Rightarrow> sim \<Rightarrow> sim" where
  "updateDynamicColor idx s =
     (let c = grid s ! idx;
          mat = getMaterial (cell_id c)
      in if is_function (color mat) then
           (let (col, s1) = sample_color (color mat) s
            in s1\<lparr>colorCache := write_rgb (colorCache s1) (idx * 4) col\<rparr>)
         else s)"

definition updateDynamicColors :: "sim \<Rightarrow> sim" where
  "updateDynamicColors s = fold updateDynamicColor (dynamicCells s) s"

definition physics_row :: "bool \<Rightarrow> int \<Rightarrow> sim \<Rightarrow> sim" where
  "physics_row leftToRight y s =
     fold (\<lambda>x s1. snd (physics_update s1 x y))
          (if leftToRight then [0 .. width s - 1] else rev [0 .. width s - 1]) s"

definition physics_sweep :: "sim \<Rightarrow> sim" where
  "physics_sweep s =
     fold (physics_row (frameCount s mod 2 = 0)) (rev [0 .. height s - 1]) s"

text \<open>The coordinates at which one tick of a grid calls \<^verbatim>\<open>interactions.update\<close>.\<close>

definition interaction_cells :: "int \<Rightarrow> int \<Rightarrow> (int \<times> int) list" where
  "interaction_cells w h =
     [(x, y). y \<leftarrow> rev [0 .. h - 1], x \<leftarrow> [0 .. w - 1], (x + y) mod 3 = 0]"

definition interactions_sweep :: "sim \<Rightarrow> sim" where
  "interactions_sweep s =
     (if frameCount s mod 2 = 0 then
        fold (\<lambda>p s1. snd (interactions_update s1 (fst p) (snd p)))
             (interaction_cells (width s) (height s)) s
      else s)"

definition tick :: "sim \<Rightarrow> sim" where
  "tick s =
     updateDynamicColors
       (interactions_sweep (physics_sweep (s\<lparr>frameCount := frameCount s + 1\<rparr>)))"

section \<open>Sequences of grid operations\<close>

text \<open>
  A caller's sequence of \<^verbatim>\<open>setCell\<close>, \<^verbatim>\<open>swap\<close> and \<^verbatim>\<open>reset\<close> calls, run in
  order on a simulation; \<open>count_particles\<close> counts the cells whose material is not AIR.
\<close>

datatype op = SetCell int int int props | Swap int int int int | Reset

fun apply_op :: "op \<Rightarrow> sim \<Rightarrow> sim" where
  "apply_op (SetCell x y m p) s = setCell s x y m p"
| "apply_op (Swap x1 y1 x2 y2) s = swap s x1 y1 x2 y2"
| "apply_op Reset s = reset s"

definition count_particles :: "sim \<Rightarrow> int" where
  "count_particles s = int (length (filter (\<lambda>c. cell_id c \<noteq> AIR) (grid s)))"

text \<open>The fields that a color refresh leaves alone (the cache keeps its length).\<close>

definition core :: "sim \<Rightarrow> int \<times> int \<times> cell list \<times> nat \<times> nat list \<times> int \<times> int \<times> (nat \<Rightarrow> rat)" where
  "core s = (width s, height s, grid s, length (colorCache s), dynamicCells s,
             frameCount s, particleCount s, rnd s)"

definition ops0 :: "op list" where
  "ops0 = [SetCell 0 0 SAND no_props, Swap 0 0 1 0, SetCell 5 5 WATER no_props,
           SetCell 0 0 FIRE no_props, SetCell 1 0 AIR no_props]"

text \<open>
  Concrete worlds for evaluation: a freshly constructed grid, in an engine that can
  allocate \<open>2^32\<close> bytes, on which every draw of \<^verbatim>\<open>Math.random\<close> is 0 (so that
  every check \<^verbatim>\<open>Math.random() < p\<close> passes), and the same after placing materials
  with \<^verbatim>\<open>setCell\<close>.
\<close>

definition fresh :: "int \<Rightarrow> int \<Rightarrow> sim" where
  "fresh w h = projr (construct (2 ^ 32) (\<lambda>n. 0) w h)"

definition place :: "sim \<Rightarrow> (int \<times> int \<times> int) list \<Rightarrow> sim" where
  "place s cells = fold (\<lambda>(x, y, m) s1. setCell s1 x y m no_props) cells s"

text \<open>The grid indices whose current material has a procedural color.\<close>

definition procedural_cells :: "sim \<Rightarrow> nat list" where
  "procedural_cells s =
     filter (\<lambda>i. is_function (color (getMaterial (cell_id (grid s ! i)))))
            [0 ..< length (grid s)]"

text \<open>
  The state in which the loop of \<^verbatim>\<open>drawLine\<close> from \<open>(2^53, 0)\<close> to
  \<open>(2^53 + 2, 0)\<close> with radius 0 starts every iteration, on a grid narrower than
  \<open>2^53\<close>.
\<close>

definition stuck ::
  "sim \<Rightarrow> int \<Rightarrow> int \<Rightarrow> int \<Rightarrow> int \<Rightarrow> int \<Rightarrow> int \<Rightarrow> int \<Rightarrow> int \<Rightarrow> int \<Rightarrow> int \<Rightarrow> bool" where
  "stuck s x0 y0 x1 y1 dx dy sx sy err r =
     (width s \<le> 2 ^ 53 \<and> x0 = 2 ^ 53 \<and> y0 = 0 \<and> x1 = 2 ^ 53 + 2 \<and> y1 = 0
      \<and> dx = 2 \<and> dy = 0 \<and> sx = 1 \<and> sy = - 1 \<and> err = 2 \<and> r = 0)"

text \<open>
  The six rule families run one after the other, in the order phase change, combustion,
  mixing, growth, conduction, erosion, each on the simulation the one before left and all
  on the cell, material and neighbours read at entry: the six flags they return, in that
  order, and the final simulation.
\<close>

definition run_families :: "sim \<Rightarrow> int \<Rightarrow> int \<Rightarrow> bool list \<times> sim" where
  "run_families s x y =
     (let c = getCell s x y;
          mat = getMaterial (cell_id c);
          nb = getNeighbors s x y;
          r1 = checkMelting s x y c mat nb;
          r2 = checkBurning (snd r1) x y c mat nb;
          r3 = checkMixing (snd r2) x y c mat nb;
          r4 = checkGrowing (snd r3) x y c mat nb;
          r5 = checkConduction (snd r4) x y c mat nb;
          r6 = checkErosion (snd r5) x y c mat nb
      in ([fst r1, fst r2, fst r3, fst r4, fst r5, fst r6], snd r6))"

text \<open>
  Three worlds in which two families apply in one evaluation: WATER at \<open>(0, 1)\<close> below
  LAVA and above SAND; GRASS at \<open>(1, 1)\<close> below LAVA and right of DIRT with air above
  it; PLANT at \<open>(1, 1)\<close> between LAVA and WATER with air above.
\<close>

definition water_world :: sim where
  "water_world = place (fresh 1 3) [(0, 0, LAVA), (0, 1, WATER), (0, 2, SAND)]"

definition grass_world :: sim where
  "grass_world = place (fresh 2 2) [(1, 0, LAVA), (0, 1, DIRT), (1, 1, GRASS)]"

definition plant_world :: sim where
  "plant_world = place (fresh 3 2) [(0, 1, LAVA), (1, 1, PLANT), (2, 1, WATER)]"


text \<open>
  \<open>stone_from a s\<close>: \<open>s\<close> has the dimensions of \<open>a\<close>, and every in-range cell that
  holds STONE in \<open>s\<close> either held STONE in \<open>a\<close> already or lies on the diagonal
  lattice \<open>(x + y) mod 3 = 0\<close> that the interaction step of \<open>tick\<close> visits.
\<close>

definition stone_from :: "sim \<Rightarrow> sim \<Rightarrow> bool" where
  "stone_from a s =
     (well_formed s \<and> width s = width a \<and> height s = height a
      \<and> (\<forall>x y. inBounds a x y \<longrightarrow> cell_id (getCell s x y) = STONE \<longrightarrow>
             cell_id (getCell a x y) = STONE \<or> (x + y) mod 3 = 0))"
section \<open>Doubles\<close>

text \<open>
  Each literal constant is the double nearest to the decimal it is written as, and the
  rounding reproduces the arithmetic of the engine: \<^verbatim>\<open>0.3 * 5 * 2\<close> is exactly 3, and
  \<open>2^53 + 1\<close> rounds to \<open>2^53\<close>.
\<close>

lemma literals:
  "lit_0_4 = fl (4 / 10)"
  "lit_0_3 = fl (3 / 10)"
  "lit_0_8 = fl (8 / 10)"
  "lit_0_2 = fl (2 / 10)"
  "lit_0_15 = fl (15 / 100)"
  "lit_0_05 = fl (5 / 100)"
  "lit_0_1 = fl (1 / 10)"
  "lit_0_02 = fl (2 / 100)"
  "lit_0_01 = fl (1 / 100)"
  "lit_0_001 = fl (1 / 1000)"
  "lit_0_002 = fl (2 / 1000)"
  "lit_0_0005 = fl (5 / 10000)"
  "lit_0_85 = fl (85 / 100)"
  "lit_0_5 = fl (5 / 10)"
  by code_simp+

lemma fl_examples:
  "fl (fl (lit_0_3 * 5) * 2) = 3" "fl_int (2 ^ 53 + 1) = 2 ^ 53" "fl_int (2 ^ 53 + 3) = 2 ^ 53 + 4"
  "fl (1 / 3) = 6004799503160661 / 2 ^ 54" "fl (of_int (2 ^ 53 + 1)) = 2 ^ 53"
  by code_simp+

lemma fl_int_exact: "\<bar>n\<bar> < 2 ^ 53 \<Longrightarrow> fl_int n = n"
  by (simp add: fl_int_def)

section \<open>Frame lemmas and the particle count\<close>

lemma random_frame [simp]:
  "grid (snd (random s)) = grid s" "width (snd (random s)) = width s"
  "height (snd (random s)) = height s" "particleCount (snd (random s)) = particleCount s"
  "dynamicCells (snd (random s)) = dynamicCells s" "colorCache (snd (random s)) = colorCache s"
  "frameCount (snd (random s)) = frameCount s" "rnd (snd (random s)) = rnd s"
  by (simp_all add: random_def)

lemma sample_color_state:
  "snd (sample_color c s) = s\<lparr>rpos := rpos (snd (sample_color c s))\<rparr>"
  by (cases c) (simp_all add: random_def Let_def)

lemma sample_color_frame [simp]:
  "grid (snd (sample_color c s)) = grid s" "width (snd (sample_color c s)) = width s"
  "height (snd (sample_color c s)) = height s"
  "particleCount (snd (sample_color c s)) = particleCount s"
  "dynamicCells (snd (sample_color c s)) = dynamicCells s"
  "colorCache (snd (sample_color c s)) = colorCache s"
  "frameCount (snd (sample_color c s)) = frameCount s"
  "rnd (snd (sample_color c s)) = rnd s"
proof -
  obtain n where "snd (sample_color c s) = s\<lparr>rpos := n\<rparr>"
    using sample_color_state by blast
  then show "grid (snd (sample_color c s)) = grid s" "width (snd (sample_color c s)) = width s"
  "height (snd (sample_color c s)) = height s"
  "particleCount (snd (sample_color c s)) = particleCount s"
  "dynamicCells (snd (sample_color c s)) = dynamicCells s"
  "colorCache (snd (sample_color c s)) = colorCache s"
  "frameCount (snd (sample_color c s)) = frameCount s"
  "rnd (snd (sample_color c s)) = rnd s"
    by simp_all
qed

lemma length_write_rgba [simp]: "length (write_rgba cc i c) = length cc"
  by (simp add: write_rgba_def write_rgb_def split: prod.splits)

lemma idx_in_range:
  assumes "0 \<le> x" "x < w" "0 \<le> y" "y < h"
  shows "nat (y * w + x) < nat (w * h)"
proof -
  have "y * w + x < (y + 1) * w" using assms by (simp add: algebra_simps)
  also have "\<dots> \<le> h * w" using assms by (intro mult_right_mono) auto
  finally have "y * w + x < w * h" by (simp add: mult.commute)
  moreover have "0 \<le> y * w + x" using assms by simp
  ultimately show ?thesis by simp
qed

lemma count_update:
  "i < length g \<Longrightarrow>
   int (length (filter P (g[i := c]))) =
   int (length (filter P g)) - (if P (g ! i) then 1 else 0) + (if P c then 1 else 0)"
proof (induction g arbitrary: i)
  case Nil
  then show ?case by simp
next
  case (Cons a g)
  show ?case
  proof (cases i)
    case 0
    then show ?thesis by simp
  next
    case (Suc n)
    then show ?thesis using Cons.IH[of n] Cons.prems by auto
  qed
qed

lemma count_swap:
  assumes "i < length g" "j < length g"
  shows "length (filter P (g[i := g ! j, j := g ! i])) = length (filter P g)"
proof (cases "i = j")
  case True
  then show ?thesis by simp
next
  case False
  have "int (length (filter P (g[i := g ! j, j := g ! i]))) = int (length (filter P g))"
    using assms False by (simp add: count_update)
  then show ?thesis by simp
qed


lemma setCell_fields:
  assumes "inBounds s x y"
  shows "grid (setCell s x y m p) = (grid s)[nat (y * width s + x) := new_cell m (getMaterial m) p]"
    and "particleCount (setCell s x y m p) =
           (if cell_id (grid s ! nat (y * width s + x)) = AIR \<and> m \<noteq> AIR then particleCount s + 1
            else if cell_id (grid s ! nat (y * width s + x)) \<noteq> AIR \<and> m = AIR then particleCount s - 1
            else particleCount s)"
    and "width (setCell s x y m p) = width s"
    and "height (setCell s x y m p) = height s"
    and "length (colorCache (setCell s x y m p)) = length (colorCache s)"
  using assms by (simp_all add: setCell_def inBounds_def Let_def case_prod_unfold)

lemma setCell_count:
  assumes "well_formed s" "inBounds s x y"
  shows "particleCount (setCell s x y m p) - count_particles (setCell s x y m p)
         = particleCount s - count_particles s"
proof -
  have lt: "nat (y * width s + x) < length (grid s)"
    using assms idx_in_range[of x "width s" y "height s"] by (simp add: well_formed_def inBounds_def)
  show ?thesis
    using lt by (simp add: setCell_fields[OF assms(2)] count_particles_def count_update new_cell_def)
qed


lemma setCell_oob: "\<not> inBounds s x y \<Longrightarrow> setCell s x y m p = s"
  by (auto simp add: setCell_def inBounds_def)

lemma swap_oob: "\<not> inBounds s x1 y1 \<or> \<not> inBounds s x2 y2 \<Longrightarrow> swap s x1 y1 x2 y2 = s"
  by (auto simp add: swap_def inBounds_def)

lemma swap_fields:
  assumes "inBounds s x1 y1" "inBounds s x2 y2"
  shows "grid (swap s x1 y1 x2 y2) =
           (grid s)[nat (y1 * width s + x1) := grid s ! nat (y2 * width s + x2),
                    nat (y2 * width s + x2) := grid s ! nat (y1 * width s + x1)]"
    and "particleCount (swap s x1 y1 x2 y2) = particleCount s"
    and "width (swap s x1 y1 x2 y2) = width s"
    and "height (swap s x1 y1 x2 y2) = height s"
    and "length (colorCache (swap s x1 y1 x2 y2)) = length (colorCache s)"
    and "dynamicCells (swap s x1 y1 x2 y2) =
           swap_dynamic (nat (y1 * width s + x1)) (nat (y2 * width s + x2)) (dynamicCells s)"
  using assms by (simp_all add: swap_def inBounds_def Let_def)

lemma idx_lt:
  "well_formed s \<Longrightarrow> inBounds s x y \<Longrightarrow> nat (y * width s + x) < length (grid s)"
  using idx_in_range[of x "width s" y "height s"] by (simp add: well_formed_def inBounds_def)

lemma swap_count:
  assumes "well_formed s"
  shows "particleCount (swap s x1 y1 x2 y2) - count_particles (swap s x1 y1 x2 y2)
         = particleCount s - count_particles s"
proof (cases "inBounds s x1 y1 \<and> inBounds s x2 y2")
  case True
  then show ?thesis
    using idx_lt[OF assms, of x1 y1] idx_lt[OF assms, of x2 y2]
    by (simp add: swap_fields count_particles_def count_swap)
next
  case False
  then show ?thesis by (simp add: swap_oob)
qed

lemma setCell_wf: "well_formed s \<Longrightarrow> well_formed (setCell s x y m p)"
  by (cases "inBounds s x y") (simp_all add: setCell_oob setCell_fields well_formed_def)

lemma swap_wf: "well_formed s \<Longrightarrow> well_formed (swap s x1 y1 x2 y2)"
  by (cases "inBounds s x1 y1 \<and> inBounds s x2 y2")
     (auto simp add: swap_oob swap_fields well_formed_def)

lemma fold_core:
  "(\<And>x s. core (f x s) = core s) \<Longrightarrow> core (fold f xs s) = core s"
  by (induction xs arbitrary: s) simp_all

lemma updateCellColor_core: "core (updateCellColor s x y) = core s"
  by (simp add: updateCellColor_def getColor_def Let_def case_prod_unfold core_def)

lemma updateColorCache_core: "core (updateColorCache s) = core s"
  unfolding updateColorCache_def
  by (rule fold_core) (rule fold_core, rule updateCellColor_core)

lemma reset_fields:
  "grid (reset s) = map (\<lambda>c. air_cell) (grid s)"
  "particleCount (reset s) = 0" "dynamicCells (reset s) = []"
  "width (reset s) = width s" "height (reset s) = height s"
  "length (colorCache (reset s)) = length (colorCache s)"
  using updateColorCache_core[of "s\<lparr>grid := map (\<lambda>c. air_cell) (grid s), particleCount := 0, dynamicCells := []\<rparr>"]
  by (simp_all add: reset_def core_def)

lemma reset_wf: "well_formed s \<Longrightarrow> well_formed (reset s)"
  by (simp add: well_formed_def reset_fields)

lemma reset_count: "particleCount (reset s) - count_particles (reset s) = 0"
  by (simp add: reset_fields count_particles_def air_cell_def)

lemma construct_wf:
  assumes "construct maxBytes r w h = Inr s0"
  shows "well_formed s0" and "particleCount s0 = count_particles s0"
proof -
  let ?s = "\<lparr>width = w, height = h, grid = replicate (nat (w * h)) air_cell,
         colorCache = replicate (nat (w * h * 4)) 0, dynamicCells = [],
         frameCount = 0, particleCount = 0, rnd = r, rpos = 0\<rparr>"
  have ok: "0 \<le> w * h" and s0: "s0 = reset ?s"
    using assms by (auto simp add: construct_def split: if_splits)
  have "well_formed ?s" using ok by (simp add: well_formed_def nat_mult_distrib)
  then show "well_formed s0" unfolding s0 by (rule reset_wf)
  show "particleCount s0 = count_particles s0"
    using reset_count[of ?s] unfolding s0 by simp
qed

lemma apply_op_inv:
  "well_formed s \<Longrightarrow> well_formed (apply_op o1 s) \<and>
     particleCount (apply_op o1 s) - count_particles (apply_op o1 s)
       = (case o1 of Reset \<Rightarrow> 0 | _ \<Rightarrow> particleCount s - count_particles s)"
proof (cases o1)
  case (SetCell x y m p)
  assume "well_formed s"
  then show ?thesis
    using SetCell setCell_count[of s x y m p] setCell_wf[of s x y m p]
    by (cases "inBounds s x y") (simp_all add: setCell_oob)
next
  case (Swap x1 y1 x2 y2)
  assume "well_formed s"
  then show ?thesis using Swap by (simp add: swap_count swap_wf)
next
  case Reset
  assume "well_formed s"
  then show ?thesis using Reset by (simp add: reset_wf reset_count)
qed

lemma run_inv:
  "well_formed s \<Longrightarrow> particleCount s = count_particles s \<Longrightarrow>
   well_formed (fold apply_op ops s) \<and> particleCount (fold apply_op ops s) = count_particles (fold apply_op ops s)"
proof (induction ops arbitrary: s)
  case Nil
  then show ?case by simp
next
  case (Cons o1 ops)
  have "well_formed (apply_op o1 s)" and "particleCount (apply_op o1 s) = count_particles (apply_op o1 s)"
    using apply_op_inv[OF Cons.prems(1), of o1] Cons.prems(2) by (auto split: op.splits)
  then show ?case using Cons.IH by simp
qed

text \<open>
  Claim C1. In every state reached from a constructed simulation by any sequence of
  \<^verbatim>\<open>setCell\<close>, \<^verbatim>\<open>swap\<close> and \<^verbatim>\<open>reset\<close> calls, with any coordinates (in range or
  not) and any material ids, \<^verbatim>\<open>particleCount\<close> is the number of cells whose material
  id is not AIR; and \<^verbatim>\<open>setCell\<close> on an in-range cell adds one on an AIR to non-AIR
  transition, subtracts one on a non-AIR to AIR transition and leaves the count otherwise.
\<close>

theorem particleCount_invariant:
  assumes "construct maxBytes r w h = Inr s0"
  shows "particleCount (fold apply_op ops s0) = count_particles (fold apply_op ops s0)
     \<and> (\<forall>x y m p. inBounds (fold apply_op ops s0) x y \<longrightarrow>
          particleCount (setCell (fold apply_op ops s0) x y m p) =
            particleCount (fold apply_op ops s0) +
             (if cell_id (getCell (fold apply_op ops s0) x y) = AIR \<and> m \<noteq> AIR then 1
              else if cell_id (getCell (fold apply_op ops s0) x y) \<noteq> AIR \<and> m = AIR then - 1
              else 0))"
proof -
  have "particleCount (fold apply_op ops s0) = count_particles (fold apply_op ops s0)"
    using run_inv construct_wf[OF assms] by blast
  moreover have "particleCount (setCell s x y m p) =
            particleCount s +
             (if cell_id (getCell s x y) = AIR \<and> m \<noteq> AIR then 1
              else if cell_id (getCell s x y) \<noteq> AIR \<and> m = AIR then - 1
              else 0)" if "inBounds s x y" for s x y m p
    using that by (simp add: setCell_fields getCell_def inBounds_def)
  ultimately show ?thesis by blast
qed

theorem particleCount_invariant_witness:
  "construct (2 ^ 32) (\<lambda>n. 0) 2 1 = Inr (projr (construct (2 ^ 32) (\<lambda>n. 0) 2 1))
   \<and> particleCount (fold apply_op ops0 (projr (construct (2 ^ 32) (\<lambda>n. 0) 2 1))) = 1
   \<and> count_particles (fold apply_op ops0 (projr (construct (2 ^ 32) (\<lambda>n. 0) 2 1))) = 1
   \<and> inBounds (fold apply_op ops0 (projr (construct (2 ^ 32) (\<lambda>n. 0) 2 1))) 1 0
   \<and> particleCount (setCell (fold apply_op ops0 (projr (construct (2 ^ 32) (\<lambda>n. 0) 2 1)))
                         1 0 SAND no_props) = 2"
proof -
  let ?s = "fold apply_op ops0 (projr (construct (2 ^ 32) (\<lambda>n. 0) 2 1))"
  have h: "construct (2 ^ 32) (\<lambda>n. 0) 2 1 = Inr (projr (construct (2 ^ 32) (\<lambda>n. 0) 2 1))"
    by (simp add: construct_def)
  have ev: "particleCount ?s = 1 \<and> inBounds ?s 1 0 \<and> cell_id (getCell ?s 1 0) = AIR"
    by code_simp
  then have pc: "particleCount ?s = 1" and ib: "inBounds ?s 1 0"
    and air: "cell_id (getCell ?s 1 0) = AIR"
    by simp_all
  from particleCount_invariant[OF h, of ops0]
  have "particleCount ?s = count_particles ?s"
    and "particleCount (setCell ?s 1 0 SAND no_props) = particleCount ?s + 1"
    using ib air by auto
  then show ?thesis using h pc ib by simp
qed
section \<open>Boundary semantics, construction and the dynamic-cell index\<close>

lemma fresh_dims:
  assumes "0 \<le> w * h" and "w * h * 4 \<le> 2 ^ 32"
  shows "width (fresh w h) = w \<and> height (fresh w h) = h"
proof -
  have p: "(2::int) ^ 32 = 4294967296" by simp
  have "\<not> w * h > 2 ^ 32 - 1" and "\<not> w * h < 0" and "\<not> w * h * 4 > 2 ^ 32"
    using assms unfolding p by linarith+
  then show ?thesis by (simp only: fresh_def construct_def if_False sum.sel reset_fields)
       (simp add: reset_fields)
qed

lemma place_dims: "width (place s cells) = width s \<and> height (place s cells) = height s"
  unfolding place_def
proof (induction cells arbitrary: s)
  case Nil
  then show ?case by simp
next
  case (Cons a cells)
  obtain x y m where a: "a = (x, y, m)" by (cases a) auto
  have "width (setCell s x y m no_props) = width s \<and> height (setCell s x y m no_props) = height s"
    by (cases "inBounds s x y") (simp_all add: setCell_fields setCell_oob)
  then show ?case using Cons.IH[of "setCell s x y m no_props"] a by simp
qed

text \<open>
  Claim C7. For every coordinate pair outside \<open>[0, width) \<times> [0, height)\<close>,
  \<^verbatim>\<open>getCell\<close> returns the synthetic boundary cell (material STONE, immovable) whatever
  the cell array holds, and \<^verbatim>\<open>setCell\<close> and \<^verbatim>\<open>swap\<close> with such a coordinate (as either
  argument pair of \<^verbatim>\<open>swap\<close>) return the simulation unchanged: cells, particle count,
  color buffer and dynamic-cell index.
\<close>

theorem boundary_safety:
  assumes "\<not> inBounds s x y"
  shows "getCell (s\<lparr>grid := g\<rparr>) x y = boundary_cell
       \<and> cell_id (getCell s x y) = STONE \<and> cell_immovable (getCell s x y)
       \<and> immovable (getMaterial (cell_id (getCell s x y)))
       \<and> setCell s x y m p = s
       \<and> swap s x y x2 y2 = s \<and> swap s x2 y2 x y = s"
proof -
  have oob: "x < 0 \<or> x \<ge> width s \<or> y < 0 \<or> y \<ge> height s"
    using assms by (auto simp add: inBounds_def)
  have g1: "getCell (s\<lparr>grid := g\<rparr>) x y = boundary_cell"
    using oob by (simp add: getCell_def)
  have g2: "getCell s x y = boundary_cell"
    using oob by (simp add: getCell_def)
  have m: "immovable (getMaterial STONE)"
    by (simp add: getMaterial_def MATERIALS_def mk_def)
  have sc: "setCell s x y m p = s"
    using oob by (simp add: setCell_def)
  have s1: "swap s x y x2 y2 = s"
    using oob by (simp add: swap_def)
  have s2: "swap s x2 y2 x y = s"
    using oob by (simp add: swap_def)
  show ?thesis using g1 g2 m sc s1 s2 by (simp add: boundary_cell_def)
qed

theorem boundary_safety_witness:
  "\<not> inBounds (place (fresh 2 1) [(0, 0, SAND)]) 2 0
   \<and> getCell (place (fresh 2 1) [(0, 0, SAND)]) 2 0 = boundary_cell
   \<and> setCell (place (fresh 2 1) [(0, 0, SAND)]) 2 0 WATER no_props
       = place (fresh 2 1) [(0, 0, SAND)]
   \<and> swap (place (fresh 2 1) [(0, 0, SAND)]) 0 0 2 0 = place (fresh 2 1) [(0, 0, SAND)]"
proof -
  let ?s = "place (fresh 2 1) [(0, 0, SAND)]"
  have oob: "\<not> inBounds ?s 2 0"
    using fresh_dims[of 2 1] by (simp add: inBounds_def place_dims)
  from boundary_safety[OF oob, of "grid ?s" WATER no_props 0 0]
  show ?thesis using oob by simp
qed


text \<open>
  Claim C4 fails on \<^verbatim>\<open>swap\<close>. On a 2 by 1 grid with SAND (a procedural color) set at
  \<open>(0, 0)\<close>, \<^verbatim>\<open>swap(0, 0, 1, 0)\<close> moves the SAND to index 1, but the dynamic-cell
  index still holds index 0: the first test moves the membership to index 1, and the
  second test, which then finds index 1 in the set, moves it back.
\<close>

theorem swap_dynamic_index_drift:
  "map cell_id (grid (swap (place (fresh 2 1) [(0, 0, SAND)]) 0 0 1 0)) = [AIR, SAND]
   \<and> dynamicCells (place (fresh 2 1) [(0, 0, SAND)]) = [0]
   \<and> dynamicCells (swap (place (fresh 2 1) [(0, 0, SAND)]) 0 0 1 0) = [0]
   \<and> procedural_cells (swap (place (fresh 2 1) [(0, 0, SAND)]) 0 0 1 0) = [1]"
  by code_simp

text \<open>
  Claim C8 fails on the dynamic-cell index. On a 2 by 1 grid with SAND set at \<open>(1, 0)\<close>,
  two calls of \<^verbatim>\<open>swap(0, 0, 1, 0)\<close> restore the cells and the color bytes, but the
  dynamic-cell index, which held index 1, holds index 0 afterwards.
\<close>

theorem swap_twice_dynamic_not_restored:
  "grid (swap (swap (place (fresh 2 1) [(1, 0, SAND)]) 0 0 1 0) 0 0 1 0)
     = grid (place (fresh 2 1) [(1, 0, SAND)])
   \<and> colorCache (swap (swap (place (fresh 2 1) [(1, 0, SAND)]) 0 0 1 0) 0 0 1 0)
     = colorCache (place (fresh 2 1) [(1, 0, SAND)])
   \<and> dynamicCells (place (fresh 2 1) [(1, 0, SAND)]) = [1]
   \<and> dynamicCells (swap (swap (place (fresh 2 1) [(1, 0, SAND)]) 0 0 1 0) 0 0 1 0) = [0]"
  by code_simp



section \<open>Termination of drawLine\<close>

text \<open>
  The loop invariant: with \<open>ax\<close> and \<open>ay\<close> the numbers of steps still to go on each
  axis, \<open>err = dx - dy + ax * dy - ay * dx\<close>, and \<open>- 3 * dy \<le> 2 * err \<le> 3 * dx\<close>.
  It implies that a step on an axis is taken only while steps remain on it, that every
  iteration before the last takes a step, and, for endpoints of magnitude at most
  \<open>2^50\<close>, that every number the loop computes is below \<open>2^53\<close> and so exact.
\<close>

lemma drawBrush_returns:
  "radius < 2 ^ 53 \<Longrightarrow> \<exists>s'. drawBrush s cx cy m radius sh = Some s'"
  by (simp add: drawBrush_def Let_def)

lemma drawLine_loop_returns:
  assumes "radius < 2 ^ 53"
    and "0 \<le> ax" "ax \<le> dx" "0 \<le> ay" "ay \<le> dy"
    and "sx = 1 \<or> sx = - 1" "sy = 1 \<or> sy = - 1"
    and "x1 - x0 = sx * ax" "y1 - y0 = sy * ay"
    and "err = dx - dy + ax * dy - ay * dx"
    and "\<bar>x1\<bar> \<le> 2 ^ 50" "\<bar>y1\<bar> \<le> 2 ^ 50" "dx \<le> 2 ^ 51" "dy \<le> 2 ^ 51"
    and "- 3 * dy \<le> 2 * err" "2 * err \<le> 3 * dx"
  shows "\<exists>s'. drawLine_loop s x0 y0 x1 y1 dx dy sx sy err m radius = Some s'"
  using assms(2-)
proof (induction "nat (ax + ay)" arbitrary: s x0 y0 err ax ay rule: less_induct)
  case less
  obtain s1 where brush: "drawBrush s x0 y0 m radius Circle = Some s1"
    using drawBrush_returns[OF assms(1)] by blast
  show ?case
  proof (cases "x0 = x1 \<and> y0 = y1")
    case True
    then show ?thesis using brush by (subst drawLine_loop.simps) auto
  next
    case False
    have p50: "(2::int) ^ 50 = 1125899906842624" and p51: "(2::int) ^ 51 = 2251799813685248"
      and p53: "(2::int) ^ 53 = 9007199254740992"
      by simp_all
    have x_iff: "x0 = x1 \<longleftrightarrow> ax = 0" using less.prems(5,7) by auto
    have y_iff: "y0 = y1 \<longleftrightarrow> ay = 0" using less.prems(6,8) by auto
    have rest: "0 < ax + ay" using False x_iff y_iff less.prems(1,3) by auto
    have dx0: "0 \<le> dx" and dy0: "0 \<le> dy" using less.prems(1-4) by auto
    have xstep: "0 < ax" if "2 * err > - dy"
    proof (rule ccontr)
      assume "\<not> 0 < ax"
      then have ax: "ax = 0" using less.prems(1) by simp
      then have "1 \<le> ay" using rest by simp
      then have "1 * dx \<le> ay * dx" using dx0 by (intro mult_right_mono) auto
      then have "err \<le> - dy" using less.prems(9) ax by simp
      then show False using that dy0 by simp
    qed
    have ystep: "0 < ay" if "2 * err < dx"
    proof (rule ccontr)
      assume "\<not> 0 < ay"
      then have ay: "ay = 0" using less.prems(3) by simp
      then have "1 \<le> ax" using rest by simp
      then have "1 * dy \<le> ax * dy" using dy0 by (intro mult_right_mono) auto
      then have "dx \<le> err" using less.prems(9) ay by simp
      then show False using that dx0 by simp
    qed
    have progress: "2 * err > - dy \<or> 2 * err < dx"
      using rest less.prems(2,4) by linarith
    have xb: "\<bar>x0\<bar> \<le> 2 ^ 50 + 2 ^ 51"
    proof -
      have "\<bar>sx * ax\<bar> = ax" using less.prems(1,5) by (auto simp add: abs_mult)
      then have "\<bar>x1 - x0\<bar> \<le> 2 ^ 51" using less.prems(2,7,12) by simp
      then show ?thesis using less.prems(10) by linarith
    qed
    have yb: "\<bar>y0\<bar> \<le> 2 ^ 50 + 2 ^ 51"
    proof -
      have "\<bar>sy * ay\<bar> = ay" using less.prems(3,6) by (auto simp add: abs_mult)
      then have "\<bar>y1 - y0\<bar> \<le> 2 ^ 51" using less.prems(4,8,13) by simp
      then show ?thesis using less.prems(11) by linarith
    qed
    have f1: "fl_int (2 * err) = 2 * err"
      using less.prems(12-15) dx0 dy0 unfolding p51 by (intro fl_int_exact) (simp add: p53)
    have f2: "fl_int (err - dy) = err - dy"
      using less.prems(12-15) dx0 dy0 unfolding p51 by (intro fl_int_exact) (simp add: p53)
    have f3: "fl_int (x0 + sx) = x0 + sx"
      using xb less.prems(5) unfolding p50 p51 by (intro fl_int_exact) (auto simp add: p53)
    have f4: "fl_int (err + dx) = err + dx"
      using less.prems(12-15) dx0 dy0 unfolding p51 by (intro fl_int_exact) (simp add: p53)
    have f5: "fl_int (err - dy + dx) = err - dy + dx"
      using less.prems(12-15) dx0 dy0 unfolding p51 by (intro fl_int_exact) (simp add: p53)
    have f6: "fl_int (y0 + sy) = y0 + sy"
      using yb less.prems(6) unfolding p50 p51 by (intro fl_int_exact) (auto simp add: p53)
    define bx :: int where "bx = (if 2 * err > - dy then 1 else 0)"
    define by' :: int where "by' = (if 2 * err < dx then 1 else 0)"
    have bxr: "0 \<le> ax - bx" "ax - bx \<le> dx"
      using xstep less.prems(1,2) by (auto simp: bx_def)
    have byr: "0 \<le> ay - by'" "ay - by' \<le> dy"
      using ystep less.prems(3,4) by (auto simp: by'_def)
    have dec: "nat ((ax - bx) + (ay - by')) < nat (ax + ay)"
      using progress rest bxr byr by (auto simp: bx_def by'_def)
    have px: "x1 - (x0 + bx * sx) = sx * (ax - bx)"
      using less.prems(7) by (simp add: algebra_simps)
    have py: "y1 - (y0 + by' * sy) = sy * (ay - by')"
      using less.prems(8) by (simp add: algebra_simps)
    have pe: "err - bx * dy + by' * dx = dx - dy + (ax - bx) * dy - (ay - by') * dx"
      using less.prems(9) by (simp add: algebra_simps)
    have lo: "- 3 * dy \<le> 2 * (err - bx * dy + by' * dx)"
      using less.prems(14) dx0 dy0 by (auto simp: bx_def by'_def)
    have hi: "2 * (err - bx * dy + by' * dx) \<le> 3 * dx"
      using less.prems(15) dx0 dy0 by (auto simp: bx_def by'_def)
    have ih: "\<exists>s'. drawLine_loop s1 (x0 + bx * sx) (y0 + by' * sy) x1 y1 dx dy sx sy
                 (err - bx * dy + by' * dx) m radius = Some s'"
      using less.hyps[OF dec bxr(1) bxr(2) byr(1) byr(2) less.prems(5) less.prems(6) px py pe
          less.prems(10) less.prems(11) less.prems(12) less.prems(13) lo hi] .
    have unfold: "drawLine_loop s x0 y0 x1 y1 dx dy sx sy err m radius =
        drawLine_loop s1 (x0 + bx * sx) (y0 + by' * sy) x1 y1 dx dy sx sy
                 (err - bx * dy + by' * dx) m radius"
      using False
      by (subst drawLine_loop.simps)
         (auto simp add: brush Let_def f1 f2 f3 f4 f5 f6 bx_def by'_def)
    show ?thesis using ih unfold by simp
  qed
qed

lemma start_bounds:
  fixes a b :: int
  assumes "0 \<le> a" and "0 \<le> b"
  shows "- 3 * b \<le> 2 * (a - b)" and "2 * (a - b) \<le> 3 * a"
  using assms by simp_all

lemma fl_int_2_53:
  "fl_int 9007199254740992 = 9007199254740992" "fl_int 9007199254740993 = 9007199254740992"
  "fl_int 4 = 4" "fl_int 2 = 2" "fl_int 0 = 0"
  by code_simp+

lemma drawBrush_far:
  assumes "width s \<le> 2 ^ 53"
  shows "drawBrush s (2 ^ 53) 0 m 0 Circle = Some s"
  using assms by (simp add: drawBrush_def brush_cell_def Let_def fl_int_2_53)

lemma drawLine_loop_stuck:
  assumes "drawLine_loop s x0 y0 x1 y1 dx dy sx sy err m r = Some s'"
  shows "\<not> stuck s x0 y0 x1 y1 dx dy sx sy err r"
proof -
  define P where
    "P = (\<lambda>s x0 y0 x1 y1 dx dy sx sy err (m::int) r (s'::sim).
            \<not> stuck s x0 y0 x1 y1 dx dy sx sy err r)"
  have step: "P s x0 y0 x1 y1 dx dy sx sy err m r sa"
    if ih: "\<And>s x0 y0 x1 y1 dx dy sx sy err m r y.
              f s x0 y0 x1 y1 dx dy sx sy err m r = Some y
              \<Longrightarrow> P s x0 y0 x1 y1 dx dy sx sy err m r y"
      and body: "Option.bind (drawBrush s x0 y0 m r Circle)
         (\<lambda>s1. if x0 = x1 \<and> y0 = y1 then Some s1
            else let e2 = fl_int (2 * err);
                     err1 = if - dy < e2 then fl_int (err - dy) else err;
                     x0' = if - dy < e2 then fl_int (x0 + sx) else x0;
                     err2 = if e2 < dx then fl_int (err1 + dx) else err1;
                     y0' = if e2 < dx then fl_int (y0 + sy) else y0
                 in f s1 x0' y0' x1 y1 dx dy sx sy err2 m r) = Some sa"
    for f s x0 y0 x1 y1 dx dy sx sy err m r sa
    unfolding P_def
  proof
    assume a: "stuck s x0 y0 x1 y1 dx dy sx sy err r"
    then have "f s x0 y0 x1 y1 dx dy sx sy err m r = Some sa"
      using body drawBrush_far[of s m] by (simp add: stuck_def Let_def fl_int_2_53)
    then have "P s x0 y0 x1 y1 dx dy sx sy err m r sa" by (rule ih)
    then show False using a by (simp add: P_def)
  qed
  have "P s x0 y0 x1 y1 dx dy sx sy err m r s'"
    by (rule drawLine_loop.raw_induct[where P = P, OF step assms])
  then show ?thesis by (simp add: P_def)
qed

text \<open>
  Claim C10, as stated, fails. The coordinates are doubles: with the endpoints
  \<open>(2^53, 0)\<close> and \<open>(2^53 + 2, 0)\<close>, the step \<^verbatim>\<open>x0 += sx\<close> computes
  \<open>2^53 + 1\<close>, which rounds back to \<open>2^53\<close>; the loop is in the same state after
  every iteration and never reaches the \<^verbatim>\<open>break\<close>.
\<close>

theorem drawLine_never_returns:
  "drawLine (fresh 2 1) (2 ^ 53) 0 (2 ^ 53 + 2) 0 SAND 0 = None"
proof -
  have w: "width (fresh 2 1) \<le> 2 ^ 53" using fresh_dims[of 2 1] by simp
  have e: "fl_int (2 ^ 53 + 2 - 2 ^ 53) = 2" "fl_int (0 - 0) = 0" "fl_int (2 - 0) = 2"
    by (simp_all add: fl_int_2_53)
  have "drawLine (fresh 2 1) (2 ^ 53) 0 (2 ^ 53 + 2) 0 SAND 0 =
        drawLine_loop (fresh 2 1) (2 ^ 53) 0 (2 ^ 53 + 2) 0 2 0 1 (- 1) 2 SAND 0"
    by (simp add: drawLine_def Let_def fl_int_2_53)
  moreover have "drawLine_loop (fresh 2 1) (2 ^ 53) 0 (2 ^ 53 + 2) 0 2 0 1 (- 1) 2 SAND 0 = None"
    using drawLine_loop_stuck[of "fresh 2 1" "2 ^ 53" 0 "2 ^ 53 + 2" 0 2 0 1 "- 1" 2 SAND 0] w
    by (cases "drawLine_loop (fresh 2 1) (2 ^ 53) 0 (2 ^ 53 + 2) 0 2 0 1 (- 1) 2 SAND 0")
       (auto simp add: stuck_def)
  ultimately show ?thesis by simp
qed

text \<open>
  Claim C10, amended. \<^verbatim>\<open>drawLine\<close> returns for every choice of integer endpoints whose
  coordinates have magnitude at most \<open>2^50\<close>, any material id and any integer radius
  below \<open>2^53\<close>: its loop reaches the test \<open>x0 = x1 \<and> y0 = y1\<close> with both
  equalities true after finitely many iterations, also when the endpoints coincide or lie
  out of grid range.
\<close>

theorem drawLine_terminates_in_range:
  assumes "\<bar>x0\<bar> \<le> 2 ^ 50" and "\<bar>y0\<bar> \<le> 2 ^ 50" and "\<bar>x1\<bar> \<le> 2 ^ 50" and "\<bar>y1\<bar> \<le> 2 ^ 50"
    and "radius < 2 ^ 53"
  shows "\<exists>s'. drawLine s x0 y0 x1 y1 materialId radius = Some s'"
proof -
  have p50: "(2::int) ^ 50 = 1125899906842624" and p51: "(2::int) ^ 51 = 2251799813685248"
    and p53: "(2::int) ^ 53 = 9007199254740992"
    by simp_all
  have dxe: "fl_int (x1 - x0) = x1 - x0"
    using assms(1,3) unfolding p50 by (intro fl_int_exact) (simp add: p53)
  have dye: "fl_int (y1 - y0) = y1 - y0"
    using assms(2,4) unfolding p50 by (intro fl_int_exact) (simp add: p53)
  have erre: "fl_int (\<bar>x1 - x0\<bar> - \<bar>y1 - y0\<bar>) = \<bar>x1 - x0\<bar> - \<bar>y1 - y0\<bar>"
    using assms(1-4) unfolding p50 by (intro fl_int_exact) (simp add: p53)
  have sx: "x1 - x0 = (if x0 < x1 then 1 else - 1) * \<bar>x1 - x0\<bar>"
    and sy: "y1 - y0 = (if y0 < y1 then 1 else - 1) * \<bar>y1 - y0\<bar>"
    by auto
  have bd: "\<bar>x1 - x0\<bar> \<le> 2 ^ 51" "\<bar>y1 - y0\<bar> \<le> 2 ^ 51"
    using assms(1-4) unfolding p50 p51 by linarith+
  have lo: "- 3 * \<bar>y1 - y0\<bar> \<le> 2 * (\<bar>x1 - x0\<bar> - \<bar>y1 - y0\<bar>)"
    and hi: "2 * (\<bar>x1 - x0\<bar> - \<bar>y1 - y0\<bar>) \<le> 3 * \<bar>x1 - x0\<bar>"
    using start_bounds[of "\<bar>x1 - x0\<bar>" "\<bar>y1 - y0\<bar>"] by simp_all
  have e0: "\<bar>x1 - x0\<bar> - \<bar>y1 - y0\<bar>
      = \<bar>x1 - x0\<bar> - \<bar>y1 - y0\<bar> + \<bar>x1 - x0\<bar> * \<bar>y1 - y0\<bar> - \<bar>y1 - y0\<bar> * \<bar>x1 - x0\<bar>"
    by simp
  show ?thesis
    unfolding drawLine_def Let_def dxe dye erre
    by (rule drawLine_loop_returns[where ax = "\<bar>x1 - x0\<bar>" and ay = "\<bar>y1 - y0\<bar>",
          OF assms(5) _ _ _ _ _ _ sx sy e0 assms(3) assms(4) bd lo hi])
       simp_all
qed

theorem drawLine_terminates_in_range_witness:
  "\<bar>0::int\<bar> \<le> 2 ^ 50 \<and> \<bar>2::int\<bar> \<le> 2 ^ 50 \<and> \<bar>1::int\<bar> \<le> 2 ^ 50 \<and> (0::int) < 2 ^ 53
   \<and> (\<exists>s'. drawLine (fresh 3 2) 0 0 2 1 SAND 0 = Some s')
   \<and> map_option (\<lambda>s. map cell_id (grid s)) (drawLine (fresh 3 2) 0 0 2 1 SAND 0)
       = Some [SAND, SAND, AIR, AIR, AIR, SAND]"
proof -
  have ev: "map_option (\<lambda>s. map cell_id (grid s)) (drawLine (fresh 3 2) 0 0 2 1 SAND 0)
       = Some [SAND, SAND, AIR, AIR, AIR, SAND]"
    by code_simp
  have h: "\<bar>0::int\<bar> \<le> 2 ^ 50" "\<bar>2::int\<bar> \<le> 2 ^ 50" "\<bar>1::int\<bar> \<le> 2 ^ 50" "(0::int) < 2 ^ 53"
    by simp_all
  from drawLine_terminates_in_range[OF h(1) h(1) h(2) h(3) h(4), of "fresh 3 2" SAND] ev h
  show ?thesis by simp
qed

section \<open>The physics step\<close>

lemma material_EXPLOSION:
  "state (getMaterial EXPLOSION) = ENERGY" "\<not> immovable (getMaterial EXPLOSION)"
  "produces (getMaterial EXPLOSION) = None" "lifetime (getMaterial EXPLOSION) = Some 3"
  by (simp_all add: getMaterial_def MATERIALS_def mk_def)

lemma set_life_fields [simp]:
  "width (set_life s x y l) = width s" "height (set_life s x y l) = height s"
  "colorCache (set_life s x y l) = colorCache s" "dynamicCells (set_life s x y l) = dynamicCells s"
  "particleCount (set_life s x y l) = particleCount s" "frameCount (set_life s x y l) = frameCount s"
  "rnd (set_life s x y l) = rnd s" "rpos (set_life s x y l) = rpos s"
  "grid (set_life s x y l) =
     (grid s)[nat (y * width s + x) := (grid s ! nat (y * width s + x))\<lparr>life := l\<rparr>]"
  by (simp_all add: set_life_def Let_def)

lemma set_life_cell_id [simp]:
  "cell_id (getCell (set_life s x y l) a b) = cell_id (getCell s a b)"
proof (cases "nat (y * width s + x) < length (grid s)")
  case True
  then show ?thesis
    by (cases "nat (b * width s + a) = nat (y * width s + x)")
       (simp_all add: getCell_def)
next
  case False
  then have "(grid s)[nat (y * width s + x) := (grid s ! nat (y * width s + x))\<lparr>life := l\<rparr>]
             = grid s"
    by (intro list_update_beyond) simp
  then show ?thesis by (simp add: getCell_def)
qed

lemma inBounds_set_life [simp]: "inBounds (set_life s x y l) a b = inBounds s a b"
  by (simp add: inBounds_def)

lemma explosion_push_skip:
  assumes "cell_id (getCell s (x + fst d) (y + snd d)) = AIR
           \<or> immovable (getMaterial (cell_id (getCell s (x + fst d) (y + snd d))))"
  shows "explosion_push x y d s = s"
  using assms by (cases d) (auto simp add: explosion_push_def Let_def)

lemma fold_skip: "(\<And>d. d \<in> set ds \<Longrightarrow> f d s = s) \<Longrightarrow> fold f ds s = s"
  by (induction ds) simp_all

text \<open>
  Claim C9. When the physics step processes an EXPLOSION cell all of whose eight
  neighbours are AIR, or all of whose eight neighbours are of immovable materials (cells
  beyond the border count as such), the resulting simulation is the one in which the
  explosion's life counter has been decremented and, if the counter has reached zero, the
  cell has been set to AIR (EXPLOSION has no \<^verbatim>\<open>produces\<close> material); every other cell
  of the grid is as before. (A cell whose stamp equals the generation is skipped and
  nothing changes.)
\<close>

theorem explosion_containment:
  assumes "well_formed s" and "inBounds s x y" and "cell_id (getCell s x y) = EXPLOSION"
    and "(\<forall>d \<in> set neighbor_offsets. cell_id (getCell s (x + fst d) (y + snd d)) = AIR)
       \<or> (\<forall>d \<in> set neighbor_offsets.
             immovable (getMaterial (cell_id (getCell s (x + fst d) (y + snd d)))))"
  shows "snd (physics_update s x y) =
           (if updated (getCell s x y) = Some (frameCount s) then s
            else if le0 (decr_life (getCell s x y) (getMaterial EXPLOSION))
              then setCell (set_life s x y (decr_life (getCell s x y) (getMaterial EXPLOSION)))
                     x y AIR no_props
            else set_life s x y (decr_life (getCell s x y) (getMaterial EXPLOSION)))
       \<and> (\<forall>i. i \<noteq> nat (y * width s + x) \<longrightarrow>
              grid (snd (physics_update s x y)) ! i = grid s ! i)
       \<and> length (grid (snd (physics_update s x y))) = length (grid s)"
proof -
  let ?c = "getCell s x y"
  let ?l = "decr_life ?c (getMaterial EXPLOSION)"
  let ?s1 = "set_life s x y ?l"
  have skip: "explosion_push x y d ?s1 = ?s1" if "d \<in> set neighbor_offsets" for d
    using assms(4) that by (intro explosion_push_skip) auto
  have loop: "fold (explosion_push x y) neighbor_offsets ?s1 = ?s1"
    by (rule fold_skip) (rule skip)
  have ue: "updateEnergy s x y ?c (getMaterial EXPLOSION) =
             (if le0 ?l then (True, setCell ?s1 x y AIR no_props) else (False, ?s1))"
    using assms(3) loop
    by (simp add: updateEnergy_def Let_def material_EXPLOSION truthy_def)
  have eq: "snd (physics_update s x y) =
           (if updated ?c = Some (frameCount s) then s
            else if le0 ?l then setCell ?s1 x y AIR no_props else ?s1)"
    using assms(3) by (simp add: physics_update_def Let_def material_EXPLOSION ue)
  have ib1: "inBounds ?s1 x y" using assms(2) by simp
  have frame: "grid (snd (physics_update s x y)) ! i = grid s ! i"
    if "i \<noteq> nat (y * width s + x)" for i
    using that by (simp add: eq setCell_fields[OF ib1])
  have len: "length (grid (snd (physics_update s x y))) = length (grid s)"
    by (simp add: eq setCell_fields[OF ib1])
  show ?thesis using eq frame len by blast
qed


theorem explosion_containment_witness:
  "well_formed (place (fresh 3 3) [(1, 1, EXPLOSION)])
   \<and> inBounds (place (fresh 3 3) [(1, 1, EXPLOSION)]) 1 1
   \<and> cell_id (getCell (place (fresh 3 3) [(1, 1, EXPLOSION)]) 1 1) = EXPLOSION
   \<and> map (\<lambda>d. cell_id (getCell (place (fresh 3 3) [(1, 1, EXPLOSION)]) (1 + fst d) (1 + snd d)))
         neighbor_offsets = [AIR, AIR, AIR, AIR, AIR, AIR, AIR, AIR]
   \<and> snd (physics_update (place (fresh 3 3) [(1, 1, EXPLOSION)]) 1 1)
       = set_life (place (fresh 3 3) [(1, 1, EXPLOSION)]) 1 1 (Some 2)
   \<and> length (grid (snd (physics_update (place (fresh 3 3) [(1, 1, EXPLOSION)]) 1 1))) = 9"
proof -
  let ?E = "place (fresh 3 3) [(1, 1, EXPLOSION)]"
  have ev: "well_formed ?E \<and> inBounds ?E 1 1 \<and> cell_id (getCell ?E 1 1) = EXPLOSION
      \<and> map (\<lambda>d. cell_id (getCell ?E (1 + fst d) (1 + snd d))) neighbor_offsets
          = [AIR, AIR, AIR, AIR, AIR, AIR, AIR, AIR]
      \<and> updated (getCell ?E 1 1) = None
      \<and> decr_life (getCell ?E 1 1) (getMaterial EXPLOSION) = Some 2
      \<and> length (grid ?E) = 9"
    by code_simp
  then have "\<forall>d \<in> set neighbor_offsets. cell_id (getCell ?E (1 + fst d) (1 + snd d)) = AIR"
    by (simp add: neighbor_offsets_def)
  with ev have h: "well_formed ?E" "inBounds ?E 1 1" "cell_id (getCell ?E 1 1) = EXPLOSION"
    "(\<forall>d \<in> set neighbor_offsets. cell_id (getCell ?E (1 + fst d) (1 + snd d)) = AIR)
     \<or> (\<forall>d \<in> set neighbor_offsets.
           immovable (getMaterial (cell_id (getCell ?E (1 + fst d) (1 + snd d)))))"
    by blast+
  from explosion_containment[OF h] ev
  show ?thesis by (simp add: le0_def)
qed

text \<open>
  Claim C3 fails: nothing ever writes the stamp \<^verbatim>\<open>updated\<close> that
  \<^verbatim>\<open>PhysicsEngine.update\<close> compares with the generation. On a grid one cell wide and
  three high with STEAM (lifetime 300) in the bottom row, one tick processes the steam
  three times: in the bottom row, where it rises, again in the middle row, where it rises
  again, and again in the top row. Its life counter has gone from 300 to 297 and no cell
  carries a stamp.
\<close>

theorem tick_reprocesses_moved_cell:
  "map (\<lambda>c. (cell_id c, life c, updated c)) (grid (place (fresh 1 3) [(0, 2, STEAM)]))
     = [(AIR, Some 0, None), (AIR, Some 0, None), (STEAM, Some 300, None)]
   \<and> map (\<lambda>c. (cell_id c, life c, updated c)) (grid (tick (place (fresh 1 3) [(0, 2, STEAM)])))
     = [(STEAM, Some 297, None), (AIR, Some 0, None), (AIR, Some 0, None)]"
  by code_simp
section \<open>The interaction step\<close>

text \<open>
  Claim C2, as stated, fails. On a grid one cell wide with LAVA above WATER above SAND,
  with every draw passing, one evaluation of the WATER cell applies the phase change
  (WATER to STEAM by \<^verbatim>\<open>checkMelting\<close>, which returns true) and, evaluated afterwards
  against the cell object read at entry, the erosion rule as well (the SAND below becomes
  MUD).
\<close>

theorem interactions_two_families:
  "map cell_id (grid (place (fresh 1 3) [(0, 0, LAVA), (0, 1, WATER), (0, 2, SAND)]))
     = [LAVA, WATER, SAND]
   \<and> fst (checkMelting (place (fresh 1 3) [(0, 0, LAVA), (0, 1, WATER), (0, 2, SAND)]) 0 1
          (getCell (place (fresh 1 3) [(0, 0, LAVA), (0, 1, WATER), (0, 2, SAND)]) 0 1)
          (getMaterial WATER)
          (getNeighbors (place (fresh 1 3) [(0, 0, LAVA), (0, 1, WATER), (0, 2, SAND)]) 0 1))
   \<and> map cell_id (grid (snd (checkMelting
          (place (fresh 1 3) [(0, 0, LAVA), (0, 1, WATER), (0, 2, SAND)]) 0 1
          (getCell (place (fresh 1 3) [(0, 0, LAVA), (0, 1, WATER), (0, 2, SAND)]) 0 1)
          (getMaterial WATER)
          (getNeighbors (place (fresh 1 3) [(0, 0, LAVA), (0, 1, WATER), (0, 2, SAND)]) 0 1))))
     = [LAVA, STEAM, SAND]
   \<and> map cell_id (grid (snd (interactions_update
          (place (fresh 1 3) [(0, 0, LAVA), (0, 1, WATER), (0, 2, SAND)]) 0 1)))
     = [LAVA, STEAM, MUD]"
  by code_simp

lemma flammable_ids:
  "flammable (getMaterial i) \<longleftrightarrow> i \<in> {OIL, GAS, GRASS, PLANT, WOOD, CHARCOAL}"
  by (simp add: getMaterial_def MATERIALS_def mk_def)

lemma checkMelting_other:
  "cell_id c \<noteq> ICE \<Longrightarrow> cell_id c \<noteq> WATER \<Longrightarrow> checkMelting s x y c mat nb = (False, s)"
  by (simp add: checkMelting_def orelse_def)

lemma checkBurning_other:
  "\<not> flammable mat \<Longrightarrow> checkBurning s x y c mat nb = (False, s)"
  by (simp add: checkBurning_def)

lemma checkMixing_other:
  "cell_id c \<noteq> SAND \<Longrightarrow> cell_id c \<noteq> DIRT \<Longrightarrow> cell_id c \<noteq> LAVA \<Longrightarrow> cell_id c \<noteq> WATER
   \<Longrightarrow> checkMixing s x y c mat nb = (False, s)"
  by (simp add: checkMixing_def orelse_def)

lemma checkGrowing_other:
  "cell_id c \<noteq> GRASS \<Longrightarrow> cell_id c \<noteq> PLANT \<Longrightarrow> checkGrowing s x y c mat nb = (False, s)"
  by (simp add: checkGrowing_def orelse_def)

lemma checkConduction_other:
  "cell_id c \<noteq> ELECTRICITY \<Longrightarrow> checkConduction s x y c mat nb = (False, s)"
  by (simp add: checkConduction_def)

lemma checkConduction_flag: "fst (checkConduction s x y c mat nb) = False"
  by (simp add: checkConduction_def)

lemma checkErosion_other:
  "cell_id c \<noteq> WATER \<Longrightarrow> checkErosion s x y c mat nb = (False, s)"
  by (simp add: checkErosion_def)

lemma single_family:
  assumes "cell_id (getCell s x y) \<notin> {WATER, GRASS, PLANT}"
  shows "interactions_update s x y \<in>
     {checkMelting s x y (getCell s x y) (getMaterial (cell_id (getCell s x y))) (getNeighbors s x y),
      checkBurning s x y (getCell s x y) (getMaterial (cell_id (getCell s x y))) (getNeighbors s x y),
      checkMixing s x y (getCell s x y) (getMaterial (cell_id (getCell s x y))) (getNeighbors s x y),
      checkGrowing s x y (getCell s x y) (getMaterial (cell_id (getCell s x y))) (getNeighbors s x y),
      checkConduction s x y (getCell s x y) (getMaterial (cell_id (getCell s x y))) (getNeighbors s x y),
      checkErosion s x y (getCell s x y) (getMaterial (cell_id (getCell s x y))) (getNeighbors s x y)}"
proof -
  let ?c = "getCell s x y"
  let ?m = "getMaterial (cell_id ?c)"
  let ?nb = "getNeighbors s x y"
  have nw: "cell_id ?c \<noteq> WATER" "cell_id ?c \<noteq> GRASS" "cell_id ?c \<noteq> PLANT"
    using assms by auto
  have ero: "\<And>s'. checkErosion s' x y ?c ?m ?nb = (False, s')"
    using nw by (simp add: checkErosion_other)
  have gro: "\<And>s'. checkGrowing s' x y ?c ?m ?nb = (False, s')"
    using nw by (simp add: checkGrowing_other)
  consider (air) "cell_id ?c = AIR" | (ice) "cell_id ?c = ICE"
    | (burn) "cell_id ?c \<in> {OIL, GAS, WOOD, CHARCOAL}"
    | (mix) "cell_id ?c \<in> {SAND, DIRT, LAVA}"
    | (el) "cell_id ?c = ELECTRICITY"
    | (none) "cell_id ?c \<notin> {AIR, ICE, OIL, GAS, WOOD, CHARCOAL, SAND, DIRT, LAVA, ELECTRICITY}"
    by blast
  then show ?thesis
  proof cases
    case air
    then have "interactions_update s x y = (False, s)"
      by (simp add: interactions_update_def)
    moreover have "checkErosion s x y ?c ?m ?nb = (False, s)" by (rule ero)
    ultimately show ?thesis by simp
  next
    case ice
    then have nf: "\<not> flammable ?m" by (simp add: flammable_ids)
    have bur: "\<And>s'. checkBurning s' x y ?c ?m ?nb = (False, s')"
      using nf by (simp add: checkBurning_other)
    have mix: "\<And>s'. checkMixing s' x y ?c ?m ?nb = (False, s')"
      using ice by (simp add: checkMixing_other)
    have con: "\<And>s'. checkConduction s' x y ?c ?m ?nb = (False, s')"
      using ice by (simp add: checkConduction_other)
    have na: "cell_id ?c \<noteq> AIR" using ice by simp
    have "interactions_update s x y = checkMelting s x y ?c ?m ?nb"
      by (simp add: interactions_update_def Let_def case_prod_unfold ero gro bur mix con na)
    then show ?thesis by simp
  next
    case burn
    have mel: "\<And>s'. checkMelting s' x y ?c ?m ?nb = (False, s')"
      using burn by (auto simp add: checkMelting_other)
    have mix: "\<And>s'. checkMixing s' x y ?c ?m ?nb = (False, s')"
      using burn by (auto simp add: checkMixing_other)
    have con: "\<And>s'. checkConduction s' x y ?c ?m ?nb = (False, s')"
      using burn by (auto simp add: checkConduction_other)
    have na: "cell_id ?c \<noteq> AIR" using burn by auto
    have "interactions_update s x y = checkBurning s x y ?c ?m ?nb"
      by (simp add: interactions_update_def Let_def case_prod_unfold ero gro mel mix con na)
    then show ?thesis by simp
  next
    case mix
    then have nf: "\<not> flammable ?m" by (auto simp add: flammable_ids)
    have bur: "\<And>s'. checkBurning s' x y ?c ?m ?nb = (False, s')"
      using nf by (simp add: checkBurning_other)
    have mel: "\<And>s'. checkMelting s' x y ?c ?m ?nb = (False, s')"
      using mix by (auto simp add: checkMelting_other)
    have con: "\<And>s'. checkConduction s' x y ?c ?m ?nb = (False, s')"
      using mix by (auto simp add: checkConduction_other)
    have na: "cell_id ?c \<noteq> AIR" using mix by auto
    have "interactions_update s x y = checkMixing s x y ?c ?m ?nb"
      by (simp add: interactions_update_def Let_def case_prod_unfold ero gro mel bur con na)
    then show ?thesis by simp
  next
    case el
    then have nf: "\<not> flammable ?m" by (simp add: flammable_ids)
    have bur: "\<And>s'. checkBurning s' x y ?c ?m ?nb = (False, s')"
      using nf by (simp add: checkBurning_other)
    have mel: "\<And>s'. checkMelting s' x y ?c ?m ?nb = (False, s')"
      using el by (simp add: checkMelting_other)
    have mix: "\<And>s'. checkMixing s' x y ?c ?m ?nb = (False, s')"
      using el by (simp add: checkMixing_other)
    have na: "cell_id ?c \<noteq> AIR" using el by simp
    have "interactions_update s x y = checkConduction s x y ?c ?m ?nb"
      using checkConduction_flag[of s x y ?c ?m ?nb]
      by (simp add: interactions_update_def Let_def case_prod_unfold ero gro mel bur mix na
          prod_eq_iff)
    then show ?thesis by simp
  next
    case none
    then have nf: "\<not> flammable ?m" using nw by (auto simp add: flammable_ids)
    have bur: "\<And>s'. checkBurning s' x y ?c ?m ?nb = (False, s')"
      using nf by (simp add: checkBurning_other)
    have mel: "\<And>s'. checkMelting s' x y ?c ?m ?nb = (False, s')"
      using none nw by (simp add: checkMelting_other)
    have mix: "\<And>s'. checkMixing s' x y ?c ?m ?nb = (False, s')"
      using none nw by (simp add: checkMixing_other)
    have con: "\<And>s'. checkConduction s' x y ?c ?m ?nb = (False, s')"
      using none by (simp add: checkConduction_other)
    have "interactions_update s x y = (False, s)"
      by (simp add: interactions_update_def Let_def case_prod_unfold ero gro mel bur mix con)
    moreover have "checkErosion s x y ?c ?m ?nb = (False, s)" by (rule ero)
    ultimately show ?thesis by simp
  qed
qed


lemma two_families_water:
  "cell_id (getCell water_world 0 1) = WATER"
  "fst (run_families water_world 0 1) = [True, False, True, False, False, True]"
  "map cell_id (grid water_world) = [LAVA, WATER, SAND]"
  "map cell_id (grid (snd (interactions_update water_world 0 1))) = [LAVA, STEAM, MUD]"
  by code_simp+

lemma two_families_grass:
  "cell_id (getCell grass_world 1 1) = GRASS"
  "fst (run_families grass_world 1 1) = [False, True, False, True, False, False]"
  "map cell_id (grid grass_world) = [AIR, LAVA, DIRT, GRASS]"
  "map cell_id (grid (snd (interactions_update grass_world 1 1))) = [GRASS, LAVA, DIRT, FIRE]"
  by code_simp+

lemma two_families_plant:
  "cell_id (getCell plant_world 1 1) = PLANT"
  "fst (run_families plant_world 1 1) = [False, True, False, True, False, False]"
  "map cell_id (grid plant_world) = [AIR, AIR, AIR, LAVA, PLANT, WATER]"
  "map cell_id (grid (snd (interactions_update plant_world 1 1)))
     = [AIR, PLANT, AIR, LAVA, FIRE, WATER]"
  by code_simp+

text \<open>
  Claim C2, amended. For every cell evaluated by the interaction step, the six rule
  families (phase change, combustion, mixing, growth, conduction, erosion) are checked in
  that fixed order, each on the cell, material and neighbours read at entry, and
  evaluation does not stop at the first family that applies: all six are always
  evaluated, and the flag returned is the disjunction of their six flags. When the
  material of the cell is not WATER, GRASS or PLANT, at most one family does anything:
  the result of the evaluation, flag and simulation, is the result of one family alone on
  the simulation at entry. For WATER, GRASS and PLANT a later family can still transform
  after an earlier one has: in the three worlds above, phase change, mixing and erosion
  all apply to the WATER cell, and combustion and growth both apply to the GRASS cell and
  to the PLANT cell.
\<close>

theorem interactions_families:
  "(cell_id (getCell s x y) \<noteq> AIR \<longrightarrow>
      interactions_update s x y
        = (list_ex (\<lambda>b. b) (fst (run_families s x y)), snd (run_families s x y)))
   \<and> (cell_id (getCell s x y) = AIR \<longrightarrow> interactions_update s x y = (False, s))
   \<and> (cell_id (getCell s x y) \<notin> {WATER, GRASS, PLANT} \<longrightarrow>
      interactions_update s x y \<in>
       {checkMelting s x y (getCell s x y) (getMaterial (cell_id (getCell s x y)))
          (getNeighbors s x y),
        checkBurning s x y (getCell s x y) (getMaterial (cell_id (getCell s x y)))
          (getNeighbors s x y),
        checkMixing s x y (getCell s x y) (getMaterial (cell_id (getCell s x y)))
          (getNeighbors s x y),
        checkGrowing s x y (getCell s x y) (getMaterial (cell_id (getCell s x y)))
          (getNeighbors s x y),
        checkConduction s x y (getCell s x y) (getMaterial (cell_id (getCell s x y)))
          (getNeighbors s x y),
        checkErosion s x y (getCell s x y) (getMaterial (cell_id (getCell s x y)))
          (getNeighbors s x y)})
   \<and> cell_id (getCell water_world 0 1) = WATER
   \<and> fst (run_families water_world 0 1) = [True, False, True, False, False, True]
   \<and> map cell_id (grid water_world) = [LAVA, WATER, SAND]
   \<and> map cell_id (grid (snd (interactions_update water_world 0 1))) = [LAVA, STEAM, MUD]
   \<and> cell_id (getCell grass_world 1 1) = GRASS
   \<and> fst (run_families grass_world 1 1) = [False, True, False, True, False, False]
   \<and> map cell_id (grid grass_world) = [AIR, LAVA, DIRT, GRASS]
   \<and> map cell_id (grid (snd (interactions_update grass_world 1 1)))
       = [GRASS, LAVA, DIRT, FIRE]
   \<and> cell_id (getCell plant_world 1 1) = PLANT
   \<and> fst (run_families plant_world 1 1) = [False, True, False, True, False, False]
   \<and> map cell_id (grid plant_world) = [AIR, AIR, AIR, LAVA, PLANT, WATER]
   \<and> map cell_id (grid (snd (interactions_update plant_world 1 1)))
       = [AIR, PLANT, AIR, LAVA, FIRE, WATER]"
proof -
  have seq: "interactions_update s x y
        = (list_ex (\<lambda>b. b) (fst (run_families s x y)), snd (run_families s x y))"
    if "cell_id (getCell s x y) \<noteq> AIR"
    using that
    by (auto simp add: interactions_update_def run_families_def Let_def case_prod_unfold)
  have air: "interactions_update s x y = (False, s)" if "cell_id (getCell s x y) = AIR"
    using that by (simp add: interactions_update_def)
  show ?thesis
    using seq air single_family[of s x y] two_families_water two_families_grass
      two_families_plant
    by (simp only: simp_thms) blast
qed

theorem interactions_families_witness:
  "cell_id (getCell (place (fresh 1 2) [(0, 0, LAVA), (0, 1, ICE)]) 0 1) = ICE
   \<and> fst (run_families (place (fresh 1 2) [(0, 0, LAVA), (0, 1, ICE)]) 0 1)
       = [True, False, False, False, False, False]
   \<and> interactions_update (place (fresh 1 2) [(0, 0, LAVA), (0, 1, ICE)]) 0 1
       = (True, snd (run_families (place (fresh 1 2) [(0, 0, LAVA), (0, 1, ICE)]) 0 1))
   \<and> interactions_update (place (fresh 1 2) [(0, 0, LAVA), (0, 1, ICE)]) 0 1
       = checkMelting (place (fresh 1 2) [(0, 0, LAVA), (0, 1, ICE)]) 0 1
           (getCell (place (fresh 1 2) [(0, 0, LAVA), (0, 1, ICE)]) 0 1) (getMaterial ICE)
           (getNeighbors (place (fresh 1 2) [(0, 0, LAVA), (0, 1, ICE)]) 0 1)
   \<and> map cell_id (grid (snd (interactions_update
           (place (fresh 1 2) [(0, 0, LAVA), (0, 1, ICE)]) 0 1))) = [LAVA, WATER]
   \<and> cell_id (getCell (fresh 1 1) 0 0) = AIR
   \<and> interactions_update (fresh 1 1) 0 0 = (False, fresh 1 1)"
proof -
  let ?s = "place (fresh 1 2) [(0, 0, LAVA), (0, 1, ICE)]"
  have ev: "cell_id (getCell ?s 0 1) = ICE
      \<and> fst (run_families ?s 0 1) = [True, False, False, False, False, False]
      \<and> map cell_id (grid (snd (interactions_update ?s 0 1))) = [LAVA, WATER]
      \<and> fst (checkMelting ?s 0 1 (getCell ?s 0 1) (getMaterial ICE) (getNeighbors ?s 0 1))
      \<and> \<not> fst (checkBurning ?s 0 1 (getCell ?s 0 1) (getMaterial ICE) (getNeighbors ?s 0 1))
      \<and> \<not> fst (checkMixing ?s 0 1 (getCell ?s 0 1) (getMaterial ICE) (getNeighbors ?s 0 1))
      \<and> \<not> fst (checkGrowing ?s 0 1 (getCell ?s 0 1) (getMaterial ICE) (getNeighbors ?s 0 1))
      \<and> \<not> fst (checkConduction ?s 0 1 (getCell ?s 0 1) (getMaterial ICE) (getNeighbors ?s 0 1))
      \<and> \<not> fst (checkErosion ?s 0 1 (getCell ?s 0 1) (getMaterial ICE) (getNeighbors ?s 0 1))
      \<and> fst (interactions_update ?s 0 1)
      \<and> cell_id (getCell (fresh 1 1) 0 0) = AIR"
    by code_simp
  then have h: "cell_id (getCell ?s 0 1) \<notin> {WATER, GRASS, PLANT}"
    and na: "cell_id (getCell ?s 0 1) \<noteq> AIR" by simp_all
  from interactions_families[of ?s 0 1] h ev
  have one: "interactions_update ?s 0 1
       = checkMelting ?s 0 1 (getCell ?s 0 1) (getMaterial ICE) (getNeighbors ?s 0 1)"
    by auto
  from interactions_families[of ?s 0 1] na ev
  have all: "interactions_update ?s 0 1 = (True, snd (run_families ?s 0 1))"
    by simp
  from interactions_families[of "fresh 1 1" 0 0] ev
  have air: "interactions_update (fresh 1 1) 0 0 = (False, fresh 1 1)"
    by simp
  show ?thesis using one all air ev by simp
qed
section \<open>The LAVA and WATER reaction\<close>


lemma random_fields [simp]:
  "getCell (snd (random s)) a b = getCell s a b" "inBounds (snd (random s)) a b = inBounds s a b"
  "well_formed (snd (random s)) = well_formed s" "fst (random s) = rnd s (rpos s)"
  by (simp_all add: random_def getCell_def inBounds_def well_formed_def)



lemma inBounds_setCell [simp]: "inBounds (setCell s x y m p) a b = inBounds s a b"
  by (cases "inBounds s x y") (simp_all add: setCell_oob setCell_fields inBounds_def)



lemma stone_from_random [simp]: "stone_from a (snd (random s)) = stone_from a s"
  by (simp add: stone_from_def)

lemma well_formed_set_life [simp]: "well_formed (set_life s x y l) = well_formed s"
  by (simp add: well_formed_def)

lemma stone_from_set_life [simp]: "stone_from a (set_life s x y l) = stone_from a s"
  by (simp add: stone_from_def)




subsection \<open>The physics step makes no STONE\<close>























subsection \<open>The interaction step makes STONE on the lattice only\<close>























lemma write_rgb_length [simp]: "length (write_rgb cc i col) = length cc"
  by (cases col) (simp add: write_rgb_def)

lemma updateDynamicColor_stone [simp]:
  "stone_from a (updateDynamicColor idx s) = stone_from a s"
  by (simp add: updateDynamicColor_def Let_def case_prod_unfold stone_from_def well_formed_def
      getCell_def)


lemma stone_from_frameCount [simp]:
  "stone_from a (s\<lparr>frameCount := n\<rparr>) = stone_from a s"
  by (simp add: stone_from_def well_formed_def getCell_def)



subsection \<open>LAVA next to WATER\<close>
















end
